theory Spec2Isabelle
  imports Main "HOL-Library.Sublist" "HOL-Library.Multiset"
begin

section \<open>Release notes scraper (gcpwatch.py): a shallow embedding\<close>

text \<open>
  The scraper reads a documentation page, extracts dated release groups, filters them by a
  cutoff date and renders them. The embedding follows \<^verbatim>\<open>src/gcpwatch.py\<close> method by
  method. Python exceptions are values of \<open>exn\<close>; a method that can raise returns
  \<open>exn + 'a\<close> with \<open>Inl\<close> for the exception.

  Strings are \<open>char list\<close>, and a \<open>char\<close> stands for the code point of the same number:
  the model covers the strings of code points below 256 (ASCII and Latin-1). On these,
  \<open>len\<close> is \<open>length\<close>, and \<open>strip\<close>, \<open>lower\<close> and the regular-expression classes
  \<open>\\d \\w \\s\<close> are the definitions below, which follow Python's Unicode tables.
\<close>

datatype exn = ValueError | AttributeError | OverflowError | RequestException | IOError
  | OtherException

subsection \<open>Python string primitives\<close>

definition ascii_upper :: string where
  "ascii_upper = ''ABCDEFGHIJKLMNOPQRSTUVWXYZ''"

definition ascii_lower :: string where
  "ascii_lower = ''abcdefghijklmnopqrstuvwxyz''"

definition digits :: string where
  "digits = ''0123456789''"

definition whitespace :: string where
  \<comment> \<open>the code points below 256 for which \<open>str.isspace\<close> holds, which are also those that
      \<open>\\s\<close> matches: TAB LF VT FF CR FS GS RS US SPACE, NEL (U+0085) and NBSP (U+00A0)\<close>
  "whitespace = [CHR 0x09, CHR 0x0A, CHR 0x0B, CHR 0x0C, CHR 0x0D,
                 CHR 0x1C, CHR 0x1D, CHR 0x1E, CHR 0x1F, CHR 0x20, CHR 0x85, CHR 0xA0]"

definition latin1_upper :: string where
  \<comment> \<open>U+00C0 to U+00DE without the multiplication sign U+00D7\<close>
  "latin1_upper =
     [CHR 0xC0, CHR 0xC1, CHR 0xC2, CHR 0xC3, CHR 0xC4, CHR 0xC5, CHR 0xC6, CHR 0xC7, CHR
     0xC8, CHR 0xC9, CHR 0xCA, CHR 0xCB, CHR 0xCC, CHR 0xCD, CHR 0xCE, CHR 0xCF, CHR 0xD0,
     CHR 0xD1, CHR 0xD2, CHR 0xD3, CHR 0xD4, CHR 0xD5, CHR 0xD6, CHR 0xD8, CHR 0xD9, CHR
     0xDA, CHR 0xDB, CHR 0xDC, CHR 0xDD, CHR 0xDE]"

definition latin1_lower :: string where
  \<comment> \<open>U+00E0 to U+00FE without the division sign U+00F7\<close>
  "latin1_lower =
     [CHR 0xE0, CHR 0xE1, CHR 0xE2, CHR 0xE3, CHR 0xE4, CHR 0xE5, CHR 0xE6, CHR 0xE7, CHR
     0xE8, CHR 0xE9, CHR 0xEA, CHR 0xEB, CHR 0xEC, CHR 0xED, CHR 0xEE, CHR 0xEF, CHR 0xF0,
     CHR 0xF1, CHR 0xF2, CHR 0xF3, CHR 0xF4, CHR 0xF5, CHR 0xF6, CHR 0xF8, CHR 0xF9, CHR
     0xFA, CHR 0xFB, CHR 0xFC, CHR 0xFD, CHR 0xFE]"

definition word_chars :: string where
  \<comment> \<open>what \<open>\\w\<close> matches below 256: the underscore and the alphanumeric code points,
      among them the ordinal indicators, the micro sign, the superscript digits and the
      vulgar fractions\<close>
  "word_chars = ascii_lower @ ascii_upper @ digits @ ''_''
     @ [CHR 0xAA, CHR 0xB2, CHR 0xB3, CHR 0xB5, CHR 0xB9, CHR 0xBA, CHR 0xBC, CHR 0xBD, CHR 0xBE]
     @ latin1_upper @ [CHR 0xDF] @ latin1_lower @ [CHR 0xFF]"

definition lower_char :: "char \<Rightarrow> char" where
  "lower_char c =
     (case map_of (zip (ascii_upper @ latin1_upper) (ascii_lower @ latin1_lower)) c of
        Some l \<Rightarrow> l
      | None \<Rightarrow> c)"

definition upper_char :: "char \<Rightarrow> char" where
  \<comment> \<open>\<open>upper\<close> and \<open>title\<close> are applied to category labels only, which the program
      makes from ASCII literals\<close>
  "upper_char c = (case map_of (zip ascii_lower ascii_upper) c of Some u \<Rightarrow> u | None \<Rightarrow> c)"

definition lower :: "string \<Rightarrow> string" where
  "lower s = map lower_char s"

definition upper :: "string \<Rightarrow> string" where
  "upper s = map upper_char s"

definition is_space :: "char \<Rightarrow> bool" where
  "is_space c = (c \<in> set whitespace)"

definition strip :: "string \<Rightarrow> string" where
  "strip s = rev (dropWhile is_space (rev (dropWhile is_space s)))"

text \<open>\<open>k in s\<close> on strings is \<^const>\<open>sublist\<close> \<open>k s\<close>; \<open>any(k in s for k in ks)\<close>:\<close>

definition any_in :: "string list \<Rightarrow> string \<Rightarrow> bool" where
  "any_in ks s = list_ex (\<lambda>k. sublist k s) ks"

text \<open>\<open>sep.join(xs)\<close>\<close>

fun join :: "string \<Rightarrow> string list \<Rightarrow> string" where
  "join sep [] = []"
| "join sep [x] = x"
| "join sep (x # y # ys) = x @ sep @ join sep (y # ys)"

text \<open>
  \<open>int(s)\<close> on a string of decimal digits, surrounding whitespace ignored. Below 256 the
  decimal digits, which are what \<open>\\d\<close> matches, are \<open>0\<close> to \<open>9\<close>.
\<close>

definition digit_val :: "char \<Rightarrow> nat" where
  "digit_val c = (case map_of (zip digits [0 ..< 10]) c of Some n \<Rightarrow> n | None \<Rightarrow> 0)"

definition int_of_digits :: "string \<Rightarrow> int" where
  "int_of_digits s = int (foldl (\<lambda>n c. 10 * n + digit_val c) 0 (strip s))"

subsection \<open>The regular expressions the program uses\<close>

text \<open>
  A backtracking matcher for the fragment of \<open>re\<close> that occurs in the date patterns of
  \<open>PLATFORM_SELECTORS\<close> and in the patterns \<open>datetime.strptime\<close> compiles its formats to:
  literals, character sets, greedy bounded repetition of a set, sequence, ordered
  alternation and capturing groups. \<open>rmatch\<close> lists every way the pattern matches a
  prefix of the input, in the order the backtracking engine tries them; the engine's match
  is the first.
\<close>

datatype regex =
    Lit char
  | OneOf string
  | Rep string nat nat
  | Plus string
  | Seq regex regex
  | Alt regex regex
  | Group string regex

definition in_set :: "bool \<Rightarrow> string \<Rightarrow> char \<Rightarrow> bool" where
  \<comment> \<open>the flag is \<open>re.IGNORECASE\<close>\<close>
  "in_set ic cs c = (if ic then lower_char c \<in> set (lower cs) else c \<in> set cs)"

type_synonym groups = "(string \<times> string) list"

primrec rmatch :: "bool \<Rightarrow> regex \<Rightarrow> string \<Rightarrow> (groups \<times> string) list" where
  "rmatch ic (Lit c) s =
     (case s of [] \<Rightarrow> [] | x # xs \<Rightarrow> if in_set ic [c] x then [([], xs)] else [])"
| "rmatch ic (OneOf cs) s =
     (case s of [] \<Rightarrow> [] | x # xs \<Rightarrow> if in_set ic cs x then [([], xs)] else [])"
| "rmatch ic (Rep cs lo hi) s =
     map (\<lambda>n. ([], drop n s)) (rev [lo ..< Suc (min hi (length (takeWhile (in_set ic cs) s)))])"
| "rmatch ic (Plus cs) s =
     map (\<lambda>n. ([], drop n s)) (rev [1 ..< Suc (length (takeWhile (in_set ic cs) s))])"
| "rmatch ic (Seq a b) s =
     concat (map (\<lambda>(g1, r1). map (\<lambda>(g2, r2). (g1 @ g2, r2)) (rmatch ic b r1)) (rmatch ic a s))"
| "rmatch ic (Alt a b) s = rmatch ic a s @ rmatch ic b s"
| "rmatch ic (Group n a) s =
     map (\<lambda>(g, r). ((n, take (length s - length r) s) # g, r)) (rmatch ic a s)"

definition re_match :: "bool \<Rightarrow> regex \<Rightarrow> string \<Rightarrow> (groups \<times> string) option" where
  \<comment> \<open>\<open>pattern.match(s)\<close>: the groups and the unconsumed rest\<close>
  "re_match ic r s = (case rmatch ic r s of [] \<Rightarrow> None | m # _ \<Rightarrow> Some m)"

fun re_search :: "regex \<Rightarrow> string \<Rightarrow> groups option" where
  \<comment> \<open>\<open>re.search(pattern, s)\<close>: the leftmost start position that matches\<close>
  "re_search r s =
     (case re_match False r s of
        Some (g, rest) \<Rightarrow> Some g
      | None \<Rightarrow> (case s of [] \<Rightarrow> None | x # xs \<Rightarrow> re_search r xs))"

definition group1 :: "groups \<Rightarrow> string" where
  "group1 g = (case map_of g ''1'' of Some v \<Rightarrow> v | None \<Rightarrow> [])"

function re_findall :: "regex \<Rightarrow> string \<Rightarrow> string list" where
  \<comment> \<open>\<open>re.findall(pattern, s)\<close> for a pattern with one group: the group of every
      non-overlapping match, left to right\<close>
  "re_findall r s =
     (case re_match False r s of
        Some (g, rest) \<Rightarrow>
          if length rest < length s then group1 g # re_findall r rest
          else (case s of [] \<Rightarrow> [group1 g] | x # xs \<Rightarrow> group1 g # re_findall r xs)
      | None \<Rightarrow> (case s of [] \<Rightarrow> [] | x # xs \<Rightarrow> re_findall r xs))"
  by pat_completeness auto
termination
  by (relation "measure (\<lambda>(r, s). length s)") auto

text \<open>The three \<open>date_patterns\<close>, the same for both platforms.\<close>

definition pat_month_day_year :: regex where
  \<comment> \<open>\<^verbatim>\<open>(\w+\s+\d{1,2},\s+\d{4})\<close>\<close>
  "pat_month_day_year = Group ''1''
     (Seq (Plus word_chars) (Seq (Plus whitespace) (Seq (Rep digits 1 2)
       (Seq (Lit (CHR '','')) (Seq (Plus whitespace) (Rep digits 4 4))))))"

definition pat_iso :: regex where
  \<comment> \<open>\<^verbatim>\<open>(\d{4}-\d{2}-\d{2})\<close>\<close>
  "pat_iso = Group ''1''
     (Seq (Rep digits 4 4) (Seq (Lit (CHR ''-'')) (Seq (Rep digits 2 2)
       (Seq (Lit (CHR ''-'')) (Rep digits 2 2)))))"

definition pat_slash :: regex where
  \<comment> \<open>\<^verbatim>\<open>(\d{1,2}/\d{1,2}/\d{4})\<close>\<close>
  "pat_slash = Group ''1''
     (Seq (Rep digits 1 2) (Seq (Lit (CHR ''/'')) (Seq (Rep digits 1 2)
       (Seq (Lit (CHR ''/'')) (Rep digits 4 4)))))"

definition date_patterns :: "regex list" where
  "date_patterns = [pat_month_day_year, pat_iso, pat_slash]"

subsection \<open>datetime\<close>

text \<open>
  A naive \<open>datetime\<close> is the number of microseconds since 0001-01-01T00:00:00
  (\<open>datetime.min\<close>); comparison of datetimes is comparison of these numbers. The day
  count is \<open>_ymd2ord\<close> of the \<open>datetime\<close> module.
\<close>

type_synonym datetime = int

definition datetime_min :: datetime where
  "datetime_min = 0"


definition is_leap :: "int \<Rightarrow> bool" where
  "is_leap y = (y mod 4 = 0 \<and> (y mod 100 \<noteq> 0 \<or> y mod 400 = 0))"

definition days_in_month :: "int \<Rightarrow> int \<Rightarrow> int" where
  "days_in_month y m =
     (if m = 2 \<and> is_leap y then 29
      else [31, 28, 31, 30, 31, 30, 31, 31, 30, 31, 30, 31] ! nat (m - 1))"

definition days_before_year :: "int \<Rightarrow> int" where
  "days_before_year y = (y - 1) * 365 + (y - 1) div 4 - (y - 1) div 100 + (y - 1) div 400"

definition days_before_month :: "int \<Rightarrow> int \<Rightarrow> int" where
  "days_before_month y m =
     [0, 31, 59, 90, 120, 151, 181, 212, 243, 273, 304, 334] ! nat (m - 1)
       + (if m > 2 \<and> is_leap y then 1 else 0)"

definition ymd2ord :: "int \<Rightarrow> int \<Rightarrow> int \<Rightarrow> int" where
  "ymd2ord y m d = days_before_year y + days_before_month y m + d"

definition microseconds_per_day :: int where
  "microseconds_per_day = 86400000000"

definition datetime_ymd :: "int \<Rightarrow> int \<Rightarrow> int \<Rightarrow> exn + datetime" where
  \<comment> \<open>\<open>datetime(y, m, d)\<close>, midnight of that day; fields out of range raise ValueError\<close>
  "datetime_ymd y m d =
     (if 1 \<le> y \<and> y \<le> 9999 \<and> 1 \<le> m \<and> m \<le> 12 \<and> 1 \<le> d \<and> d \<le> days_in_month y m
      then Inr ((ymd2ord y m d - 1) * microseconds_per_day)
      else Inl ValueError)"


subsection \<open>datetime.strptime\<close>

text \<open>
  \<open>strptime\<close> (C locale) compiles the format to a regular expression, case-insensitive,
  matches it at the start of the string, requires the match to cover the whole string and
  builds the date from the groups; every failure is a ValueError. No code point from 128
  to 255 matches an ASCII letter of a pattern under \<open>re.IGNORECASE\<close>.
\<close>

definition month_names :: "string list" where
  "month_names = [''january'', ''february'', ''march'', ''april'', ''may'', ''june'', ''july'',
     ''august'', ''september'', ''october'', ''november'', ''december'']"

definition month_abbrs :: "string list" where
  "month_abbrs = [''jan'', ''feb'', ''mar'', ''apr'', ''may'', ''jun'', ''jul'', ''aug'', ''sep'',
     ''oct'', ''nov'', ''dec'']"

fun lits :: "string \<Rightarrow> regex" where
  "lits [] = Rep [] 0 0"
| "lits [c] = Lit c"
| "lits (c # cs) = Seq (Lit c) (lits cs)"

fun alts :: "regex list \<Rightarrow> regex" where
  "alts [] = OneOf []"
| "alts [r] = r"
| "alts (r # rs) = Alt r (alts rs)"

definition seqToRE :: "string list \<Rightarrow> string \<Rightarrow> regex" where
  \<comment> \<open>the names as alternatives, longest first (a stable sort by length, descending)\<close>
  "seqToRE names directive =
     Group directive (alts (map lits (rev (sort_key length (rev names)))))"

definition directive :: "char \<Rightarrow> regex option" where
  "directive c =
    (if c = CHR ''d'' then Some (Group ''d''
        (alts [Seq (Lit CHR ''3'') (OneOf ''01''), Seq (OneOf ''12'') (OneOf digits),
               Seq (Lit CHR ''0'') (OneOf ''123456789''), OneOf ''123456789'',
               Seq (Lit CHR '' '') (OneOf ''123456789'')]))
     else if c = CHR ''m'' then Some (Group ''m''
        (alts [Seq (Lit CHR ''1'') (OneOf ''012''), Seq (Lit CHR ''0'') (OneOf ''123456789''),
               OneOf ''123456789'']))
     else if c = CHR ''Y'' then Some (Group ''Y'' (Rep digits 4 4))
     else if c = CHR ''B'' then Some (seqToRE month_names ''B'')
     else if c = CHR ''b'' then Some (seqToRE month_abbrs ''b'')
     else None)"

function pattern :: "string \<Rightarrow> regex list option" where
  "pattern [] = Some []"
| "pattern (c # cs) =
     (if c = CHR ''%'' then
        (case cs of
           [] \<Rightarrow> None
         | d # rest \<Rightarrow>
             (case directive d of
                None \<Rightarrow> None
              | Some r \<Rightarrow> map_option ((#) r) (pattern rest)))
      else if is_space c then map_option ((#) (Plus whitespace)) (pattern (dropWhile is_space cs))
      else map_option ((#) (Lit c)) (pattern cs))"
  by pat_completeness auto
termination
  by (relation "measure length") (auto simp: length_dropWhile_le less_Suc_eq_le)

fun seqs :: "regex list \<Rightarrow> regex" where
  "seqs [] = Rep [] 0 0"
| "seqs [r] = r"
| "seqs (r # rs) = Seq r (seqs rs)"

definition index_of :: "'a list \<Rightarrow> 'a \<Rightarrow> nat option" where
  "index_of xs x = (if x \<in> set xs then Some (length (takeWhile (\<lambda>y. y \<noteq> x) xs)) else None)"

definition month_of :: "groups \<Rightarrow> int option" where
  \<comment> \<open>the month from group m, B or b; a name that is not in the table raises ValueError\<close>
  "month_of g =
     (case map_of g ''m'' of
        Some v \<Rightarrow> Some (int_of_digits v)
      | None \<Rightarrow>
         (case map_of g ''B'' of
            Some v \<Rightarrow> map_option (\<lambda>i. int i + 1) (index_of month_names (lower v))
          | None \<Rightarrow>
             (case map_of g ''b'' of
                Some v \<Rightarrow> map_option (\<lambda>i. int i + 1) (index_of month_abbrs (lower v))
              | None \<Rightarrow> Some 1)))"

definition strptime :: "string \<Rightarrow> string \<Rightarrow> exn + datetime" where
  "strptime data_string format =
     (case pattern format of
        None \<Rightarrow> Inl ValueError
      | Some rs \<Rightarrow>
         (case re_match True (seqs rs) data_string of
            None \<Rightarrow> Inl ValueError
          | Some (g, rest) \<Rightarrow>
              if rest \<noteq> [] then Inl ValueError
              else (case (map_of g ''Y'', month_of g) of
                      (Some y, Some m) \<Rightarrow>
                        datetime_ymd (int_of_digits y) m
                          (case map_of g ''d'' of Some d \<Rightarrow> int_of_digits d | None \<Rightarrow> 1)
                    | _ \<Rightarrow> Inl ValueError)))"

subsection \<open>\<open>_parse_date\<close>\<close>

definition formats :: "string list" where
  "formats = [''%B %d, %Y'', ''%b %d, %Y'', ''%Y-%m-%d'', ''%m/%d/%Y'', ''%d/%m/%Y'']"

text \<open>
  The loop \<open>for fmt in formats: try: return strptime(...) except ValueError: continue\<close>:
  only ValueError is caught, any other exception leaves the method.
\<close>

fun try_formats :: "string \<Rightarrow> string list \<Rightarrow> exn + datetime option" where
  "try_formats s [] = Inr None"
| "try_formats s (fmt # fmts) =
     (case strptime s fmt of
        Inr d \<Rightarrow> Inr (Some d)
      | Inl e \<Rightarrow> if e = ValueError then try_formats s fmts else Inl e)"

definition parse_date :: "string \<Rightarrow> exn + datetime option" where
  "parse_date date_str = try_formats (strip date_str) formats"

subsection \<open>The page as the program sees it\<close>

text \<open>
  The markup parser is an external library. An element is modelled by what the program
  reads from it: \<open>name\<close> is \<open>element.name\<close>, \<open>classes\<close> is \<open>element.get('class', [])\<close>,
  \<open>get_text\<close> is \<open>element.get_text(strip=True)\<close>, \<open>markup\<close> is \<open>str(element)\<close> and
  \<open>hrefs\<close> is \<open>[a.get('href') for a in element.find_all('a') if a.get('href')]\<close>.
\<close>

record element =
  name :: string
  classes :: "string list"
  get_text :: string
  markup :: string
  hrefs :: "string list"

text \<open>A sibling of a header, with the result of \<open>sibling.find_all('li')\<close>.\<close>

record sibling =
  el :: element
  lis :: "element list"

text \<open>
  A header found by \<open>content_area.find_all(header_tag)\<close>: its text and the chain of
  elements that repeated \<open>find_next_sibling()\<close> visits.
\<close>

record header =
  header_text :: string
  next_siblings :: "sibling list"

text \<open>
  A div found by \<open>find_all('div', class_=[...])\<close>. \<open>neighbours\<close> holds, for
  \<open>[div.previous_sibling, parent, div.next_sibling]\<close>, the text \<open>elem.get_text(strip=True)\<close>,
  or None where the test \<open>elem and hasattr(elem, 'get_text')\<close> fails.
\<close>

record candidate =
  div_el :: element
  neighbours :: "string option list"

text \<open>
  The content area: \<open>find_all\<close> of a header tag, the role-marked divs, and the strings
  of \<open>find_all(text=True)\<close>.
\<close>

record content_area =
  find_all :: "string \<Rightarrow> header list"
  release_divs :: "candidate list"
  all_text_elements :: "string list"

subsection \<open>Release items, release groups and the scraper\<close>

record item =
  item_text :: string
  category :: string
  urls :: "string list"

record release =
  date :: "datetime option"
  date_str :: string
  items :: "item list"
  url :: string

record scraper =
  scraper_url :: string
  months :: int
  cutoff_date :: datetime
  releases :: "release list"
  platform :: string


definition date_headers :: "string \<Rightarrow> string list" where
  \<comment> \<open>\<open>PLATFORM_SELECTORS[platform]['date_headers']\<close>\<close>
  "date_headers p =
     (if p = ''google_cloud'' then [''h2'', ''h3''] else [''h2'', ''h3'', ''h4''])"


subsection \<open>\<open>_categorize_item\<close>\<close>

definition hint_category :: "element \<Rightarrow> string option" where
  \<comment> \<open>the checks on the element's classes; None when no class matches\<close>
  "hint_category e =
     (let class_str = join '' '' (classes e) in
      if sublist ''release-feature'' class_str then
        (let element_text = get_text e in
         if sublist ''(Preview)'' element_text \<or> sublist ''(preview)'' element_text
         then Some ''public-preview'' else Some ''ga'')
      else if sublist ''release-changed'' class_str then Some ''change''
      else if sublist ''release-announcement'' class_str then Some ''announcement''
      else if sublist ''release-breaking'' class_str then Some ''breaking''
      else if sublist ''release-issue'' class_str then Some ''issue''
      else None)"

definition keyword_category :: "string \<Rightarrow> string" where
  \<comment> \<open>the text analysis of a non-empty text\<close>
  "keyword_category txt =
     (let text_lower = lower txt in
      if any_in [''security'', ''vulnerability'', ''cve'', ''patch''] text_lower then ''security''
      else if any_in [''breaking change'', ''breaking change:'', ''migration required'',
                      ''major version update''] text_lower then ''breaking''
      else if any_in [''(preview)'', ''public preview'', ''in preview'', ''preview)'',
                      ''early access'', ''beta''] text_lower then ''public-preview''
      else if any_in [''generally available'', ''general availability'', ''(ga)'', ''is now ga'',
                      ''is in ga'', ''in general availability''] text_lower then ''ga''
      else if any_in [''deprecated'', ''deprecation'', ''obsolete'', ''removed'',
                      ''discontinued''] text_lower then ''deprecated''
      else if any_in [''fixed'', ''fix:'', ''resolved'', ''bug''] text_lower then ''fixed''
      else if any_in [''issue'', ''known issue'', ''workaround''] text_lower then ''issue''
      else if any_in [''changed:'', ''migration required'', ''version updates''] text_lower
        then ''change''
      else if any_in [''announced'', ''announcement'', ''introducing''] text_lower
        then ''announcement''
      else if any_in [''library'', ''sdk'', ''api'', ''client library'', ''framework''] text_lower
        then ''libraries''
      else ''update'')"

definition falsy :: "string option \<Rightarrow> bool" where
  \<comment> \<open>\<open>not text\<close>: None or the empty string\<close>
  "falsy t = (case t of None \<Rightarrow> True | Some s \<Rightarrow> s = [])"

definition categorize_item :: "element option \<Rightarrow> string option \<Rightarrow> string" where
  "categorize_item element txt =
     (case (case element of None \<Rightarrow> None | Some e \<Rightarrow> hint_category e) of
        Some c \<Rightarrow> c
      | None \<Rightarrow>
          (let txt' = (case element of
                         Some e \<Rightarrow> if falsy txt then Some (get_text e) else txt
                       | None \<Rightarrow> txt)
           in case txt' of
                None \<Rightarrow> ''update''
              | Some s \<Rightarrow> if s = [] then ''update'' else keyword_category s))"

text \<open>
  The decision order in the words of the specification: the structural rules, then the
  keyword table in priority order, then the default.
\<close>

definition keyword_rules :: "(string list \<times> string) list" where
  "keyword_rules =
    [([''security'', ''vulnerability'', ''cve'', ''patch''], ''security''),
     ([''breaking change'', ''breaking change:'', ''migration required'',
       ''major version update''], ''breaking''),
     ([''(preview)'', ''public preview'', ''in preview'', ''preview)'', ''early access'',
       ''beta''], ''public-preview''),
     ([''generally available'', ''general availability'', ''(ga)'', ''is now ga'', ''is in ga'',
       ''in general availability''], ''ga''),
     ([''deprecated'', ''deprecation'', ''obsolete'', ''removed'', ''discontinued''],
      ''deprecated''),
     ([''fixed'', ''fix:'', ''resolved'', ''bug''], ''fixed''),
     ([''issue'', ''known issue'', ''workaround''], ''issue''),
     ([''changed:'', ''migration required'', ''version updates''], ''change''),
     ([''announced'', ''announcement'', ''introducing''], ''announcement''),
     ([''library'', ''sdk'', ''api'', ''client library'', ''framework''], ''libraries'')]"

fun first_hit :: "(string list \<times> string) list \<Rightarrow> string \<Rightarrow> string" where
  "first_hit [] s = ''update''"
| "first_hit ((ks, c) # rules) s = (if any_in ks s then c else first_hit rules s)"

definition security_terms :: "string list" where
  "security_terms = fst (keyword_rules ! 0)"

definition preview_terms :: "string list" where
  "preview_terms = fst (keyword_rules ! 2)"

subsection \<open>\<open>_parse_structured_releases\<close>\<close>

definition role_classes :: "string list" where
  "role_classes = [''release-feature'', ''release-changed'', ''release-announcement'',
     ''release-breaking'', ''release-issue'']"

definition role_marked :: "element \<Rightarrow> bool" where
  \<comment> \<open>\<open>any(cls in [...] for cls in div_classes)\<close>\<close>
  "role_marked e = list_ex (\<lambda>cls. cls \<in> set role_classes) (classes e)"

definition make_item :: "element \<Rightarrow> item" where
  "make_item e = \<lparr>item_text = markup e,
                  category = categorize_item (Some e) (Some (get_text e)),
                  urls = hrefs e\<rparr>"

definition long_item :: "nat \<Rightarrow> element \<Rightarrow> item list" where
  \<comment> \<open>\<open>if text and len(text) > n: items.append(...)\<close>\<close>
  "long_item n e = (if get_text e \<noteq> [] \<and> length (get_text e) > n then [make_item e] else [])"

definition li_item :: "element \<Rightarrow> item list" where
  \<comment> \<open>\<open>if li_text: items.append(...)\<close>\<close>
  "li_item li = (if get_text li \<noteq> [] then [make_item li] else [])"

definition sibling_items :: "sibling \<Rightarrow> item list" where
  \<comment> \<open>what one pass of the body of the sibling walk appends to \<open>items\<close>\<close>
  "sibling_items s =
     (if role_marked (el s) then long_item 10 (el s)
      else if name (el s) \<in> set [''p'', ''ul'', ''ol'', ''li'', ''div''] then
        (if name (el s) \<in> set [''ul'', ''ol''] then concat (map li_item (lis s))
         else long_item 10 (el s))
      else [])"

fun walk :: "string list \<Rightarrow> sibling list \<Rightarrow> item list" where
  \<comment> \<open>\<open>while sibling and sibling.name not in selectors['date_headers']\<close>\<close>
  "walk hdrs [] = []"
| "walk hdrs (s # ss) =
     (if name (el s) \<in> set hdrs then [] else sibling_items s @ walk hdrs ss)"

fun try_patterns :: "scraper \<Rightarrow> header \<Rightarrow> regex list \<Rightarrow> exn + release list" where
  \<comment> \<open>the loop over the date patterns for one header: the groups it appends\<close>
  "try_patterns s h [] = Inr []"
| "try_patterns s h (p # ps) =
     (case re_search p (header_text h) of
        None \<Rightarrow> try_patterns s h ps
      | Some g \<Rightarrow>
          (case parse_date (group1 g) of
             Inl e \<Rightarrow> Inl e
           | Inr None \<Rightarrow> try_patterns s h ps
           | Inr (Some d) \<Rightarrow>
               (let its = walk (date_headers (platform s)) (next_siblings h)
                in Inr (if its \<noteq> []
                        then [\<lparr>date = Some d, date_str = group1 g, items = its,
                               url = scraper_url s\<rparr>]
                        else []))))"

fun headers_loop :: "scraper \<Rightarrow> header list \<Rightarrow> exn + release list" where
  "headers_loop s [] = Inr []"
| "headers_loop s (h # hs) =
     (case try_patterns s h date_patterns of
        Inl e \<Rightarrow> Inl e
      | Inr g \<Rightarrow> (case headers_loop s hs of Inl e \<Rightarrow> Inl e | Inr gs \<Rightarrow> Inr (g @ gs)))"

fun tags_loop :: "scraper \<Rightarrow> content_area \<Rightarrow> string list \<Rightarrow> exn + release list" where
  "tags_loop s area [] = Inr []"
| "tags_loop s area (t # ts) =
     (case headers_loop s (find_all area t) of
        Inl e \<Rightarrow> Inl e
      | Inr g \<Rightarrow> (case tags_loop s area ts of Inl e \<Rightarrow> Inl e | Inr gs \<Rightarrow> Inr (g @ gs)))"

definition parse_structured_releases :: "scraper \<Rightarrow> content_area \<Rightarrow> exn + scraper" where
  "parse_structured_releases s area =
     (case tags_loop s area (date_headers (platform s)) of
        Inl e \<Rightarrow> Inl e
      | Inr gs \<Rightarrow> Inr (s\<lparr>releases := releases s @ gs\<rparr>))"

subsection \<open>\<open>_parse_unstructured_releases\<close>\<close>

fun first_date :: "regex list \<Rightarrow> string \<Rightarrow> string option" where
  \<comment> \<open>the inner loop over the patterns: \<open>match.group(1)\<close> of the first pattern found\<close>
  "first_date [] t = None"
| "first_date (p # ps) t =
     (case re_search p t of None \<Rightarrow> first_date ps t | Some g \<Rightarrow> Some (group1 g))"

fun find_date ::
  "string option list \<Rightarrow> datetime option \<times> string option \<Rightarrow>
     exn + (datetime option \<times> string option)" where
  \<comment> \<open>the loop over previous sibling, parent and next sibling; the state is
      \<open>(date_found, date_str)\<close>\<close>
  "find_date [] st = Inr st"
| "find_date (n # ns) (date_found, ds) =
     (case (case n of None \<Rightarrow> None | Some t \<Rightarrow> first_date date_patterns t) of
        None \<Rightarrow> if date_found \<noteq> None then Inr (date_found, ds)
                else find_date ns (date_found, ds)
      | Some m \<Rightarrow>
          (case parse_date m of
             Inl e \<Rightarrow> Inl e
           | Inr d \<Rightarrow> if d \<noteq> None then Inr (d, Some m) else find_date ns (d, Some m)))"

definition is_duplicate :: "release list \<Rightarrow> string \<Rightarrow> bool" where
  "is_duplicate rs text_content =
     list_ex (\<lambda>r. list_ex (\<lambda>i. item_text i = text_content) (items r)) rs"

definition str_or_none :: "string option \<Rightarrow> string" where
  "str_or_none x = (case x of None \<Rightarrow> [] | Some v \<Rightarrow> v)"

fun pass_a :: "scraper \<Rightarrow> candidate list \<Rightarrow> exn + scraper" where
  \<comment> \<open>the loop over \<open>release_divs\<close>\<close>
  "pass_a s [] = Inr s"
| "pass_a s (c # cs) =
     (case find_date (neighbours c) (None, None) of
        Inl e \<Rightarrow> Inl e
      | Inr (date_found, ds) \<Rightarrow>
          (case date_found of
             None \<Rightarrow> pass_a s cs
           | Some d \<Rightarrow>
               if d \<ge> cutoff_date s \<and> get_text (div_el c) \<noteq> [] \<and> length (get_text (div_el c)) > 20
                  \<and> \<not> is_duplicate (releases s) (markup (div_el c))
               then pass_a (s\<lparr>releases := releases s @
                      [\<lparr>date = Some d, date_str = str_or_none ds, items = [make_item (div_el c)],
                        url = scraper_url s\<rparr>]\<rparr>) cs
               else pass_a s cs))"

text \<open>
  The loop over the text nodes rebinds \<open>text = text.strip()\<close>, which is a plain \<open>str\<close>;
  the next use, \<open>text.parent\<close>, raises AttributeError. The statements after it (the
  length test, the duplicate check and the append) are never reached.
\<close>

fun matches_loop :: "scraper \<Rightarrow> string list \<Rightarrow> exn + unit" where
  \<comment> \<open>\<open>for match in matches\<close>\<close>
  "matches_loop s [] = Inr ()"
| "matches_loop s (m # ms) =
     (case parse_date m of
        Inl e \<Rightarrow> Inl e
      | Inr None \<Rightarrow> matches_loop s ms
      | Inr (Some d) \<Rightarrow> if d \<ge> cutoff_date s then Inl AttributeError else matches_loop s ms)"

fun patterns_loop :: "scraper \<Rightarrow> regex list \<Rightarrow> string \<Rightarrow> exn + unit" where
  \<comment> \<open>\<open>for pattern in selectors['date_patterns']\<close>\<close>
  "patterns_loop s [] t = Inr ()"
| "patterns_loop s (p # ps) t =
     (case matches_loop s (re_findall p t) of Inl e \<Rightarrow> Inl e | Inr _ \<Rightarrow> patterns_loop s ps t)"

fun pass_b :: "scraper \<Rightarrow> string list \<Rightarrow> exn + scraper" where
  \<comment> \<open>the loop over \<open>all_text_elements\<close>\<close>
  "pass_b s [] = Inr s"
| "pass_b s (t # ts) =
     (if strip t = [] then pass_b s ts
      else (case patterns_loop s date_patterns (strip t) of
              Inl e \<Rightarrow> Inl e
            | Inr _ \<Rightarrow> pass_b s ts))"

definition parse_unstructured_releases :: "scraper \<Rightarrow> content_area \<Rightarrow> exn + scraper" where
  "parse_unstructured_releases s area =
     (case pass_a s (release_divs area) of
        Inl e \<Rightarrow> Inl e
      | Inr s' \<Rightarrow> pass_b s' (all_text_elements area))"

subsection \<open>\<open>scrape\<close>\<close>

fun filter_loop :: "datetime \<Rightarrow> release list \<Rightarrow> release list \<Rightarrow> release list" where
  \<comment> \<open>\<open>for release in self.releases: if release['date'] and release['date'] >= cutoff:
      filtered_releases.append(release)\<close>\<close>
  "filter_loop cutoff filtered [] = filtered"
| "filter_loop cutoff filtered (r # rs) =
     (case date r of
        None \<Rightarrow> filter_loop cutoff filtered rs
      | Some d \<Rightarrow> if d \<ge> cutoff then filter_loop cutoff (filtered @ [r]) rs
                  else filter_loop cutoff filtered rs)"

definition filter_by_date :: "scraper \<Rightarrow> release list" where
  "filter_by_date s = filter_loop (cutoff_date s) [] (releases s)"

text \<open>
  The outcome of a call of \<open>scrape\<close>: the list it returns and, as a record of the run, the
  extractors it called, in order. The argument \<open>page\<close> stands for the statements up to
  the choice of the content area (the request, \<open>raise_for_status\<close>, the markup parser):
  \<open>Inl RequestException\<close> for a failed request, \<open>Inl\<close> of another exception when one
  of them raises it, else the content area.
\<close>

datatype extractor = Structured | Unstructured

record outcome =
  returned :: "release list"
  called :: "extractor list"

definition scrape :: "scraper \<Rightarrow> exn + content_area \<Rightarrow> outcome" where
  "scrape s page =
     (case page of
        Inl e \<Rightarrow> \<lparr>returned = [], called = []\<rparr>
      | Inr area \<Rightarrow>
          (case parse_structured_releases s area of
             Inl e \<Rightarrow> \<lparr>returned = [], called = [Structured]\<rparr>
           | Inr s1 \<Rightarrow>
               if releases s1 = [] then
                 (case parse_unstructured_releases s1 area of
                    Inl e \<Rightarrow> \<lparr>returned = [], called = [Structured, Unstructured]\<rparr>
                  | Inr s2 \<Rightarrow> \<lparr>returned = filter_by_date s2,
                                called = [Structured, Unstructured]\<rparr>)
               else \<lparr>returned = filter_by_date s1, called = [Structured]\<rparr>))"

subsection \<open>Rendering\<close>

text \<open>
  What the renderers take from outside the program: the formatted current time, the text of
  a stored markup payload (\<open>BeautifulSoup(item['text'], 'html.parser').get_text(strip=True)\<close>),
  the formatting of a datetime, \<open>json.dumps\<close>, and the writing of the output file
  (the exception raised, if any).
\<close>

datatype json = JNull | JStr string | JInt int | JList "json list" | JObj "(string \<times> json) list"

record env =
  now_text :: string
  now_iso :: string
  today :: string
  plain_text :: "string \<Rightarrow> string"
  isoformat :: "datetime \<Rightarrow> string"
  ymd_text :: "datetime \<Rightarrow> string"
  dumps :: "json \<Rightarrow> string"
  write_file :: "string \<Rightarrow> string \<Rightarrow> exn option"

definition nl :: string where
  "nl = [CHR 0x0A]"

function str_nat :: "nat \<Rightarrow> string" where
  "str_nat n = (if n < 10 then [digits ! n] else str_nat (n div 10) @ [digits ! (n mod 10)])"
  by pat_completeness auto
termination
  by (relation "measure id") auto

definition str_int :: "int \<Rightarrow> string" where
  "str_int i = (if i < 0 then ''-'' @ str_nat (nat (- i)) else str_nat (nat i))"

function replace :: "string \<Rightarrow> string \<Rightarrow> string \<Rightarrow> string" where
  \<comment> \<open>\<open>s.replace(old, new)\<close> for a non-empty \<open>old\<close>\<close>
  "replace old new [] = []"
| "replace old new (c # cs) =
     (if old \<noteq> [] \<and> prefix old (c # cs)
      then new @ replace old new (drop (length old) (c # cs))
      else c # replace old new cs)"
  by pat_completeness auto
termination
  by (relation "measure (\<lambda>(old, new, s). length s)") auto

definition self_link :: string where
  "self_link = ''https://cloud.google.com/run/docs/release-notes''"

definition is_cased :: "char \<Rightarrow> bool" where
  "is_cased c = (c \<in> set ascii_lower \<or> c \<in> set ascii_upper)"

fun title_from :: "bool \<Rightarrow> string \<Rightarrow> string" where
  \<comment> \<open>\<open>str.title\<close>; the flag says that the previous character is cased\<close>
  "title_from prev [] = []"
| "title_from prev (c # cs) =
     (if prev then lower_char c else upper_char c) # title_from (is_cased c) cs"

definition title :: "string \<Rightarrow> string" where
  "title s = title_from False s"

definition sort_key_date :: "release \<Rightarrow> datetime" where
  \<comment> \<open>\<open>lambda x: x['date'] if x['date'] else datetime.min\<close>\<close>
  "sort_key_date r = (case date r of Some d \<Rightarrow> d | None \<Rightarrow> datetime_min)"

definition sort_releases :: "release list \<Rightarrow> release list" where
  \<comment> \<open>\<open>releases.sort(key=..., reverse=True)\<close>: descending, and stable\<close>
  "sort_releases rs = rev (sort_key sort_key_date (rev rs))"

fun bump :: "(string \<times> nat) list \<Rightarrow> string \<Rightarrow> (string \<times> nat) list" where
  \<comment> \<open>\<open>category_counts[category] = category_counts.get(category, 0) + 1\<close> on a dict, which
      keeps its keys in insertion order\<close>
  "bump [] c = [(c, 1)]"
| "bump ((k, n) # kvs) c = (if k = c then (k, n + 1) # kvs else (k, n) # bump kvs c)"

definition all_items :: "release list \<Rightarrow> item list" where
  "all_items rs = concat (map items rs)"

definition category_counts :: "release list \<Rightarrow> (string \<times> nat) list" where
  "category_counts rs = foldl bump [] (map category (all_items rs))"

definition sorted_counts :: "release list \<Rightarrow> (string \<times> nat) list" where
  \<comment> \<open>\<open>sorted(category_counts.items(), key=lambda x: x[1], reverse=True)\<close>\<close>
  "sorted_counts rs = rev (sort_key snd (rev (category_counts rs)))"

definition item_plain :: "env \<Rightarrow> item \<Rightarrow> string" where
  "item_plain e i = replace self_link [] (plain_text e (item_text i))"

subsubsection \<open>\<open>_format_text\<close>\<close>

definition text_header :: "scraper \<Rightarrow> env \<Rightarrow> string list" where
  "text_header s e =
     [replicate 80 CHR ''='', ''RELEASE NOTES SUMMARY'', ''Generated: '' @ now_text e,
      ''Time range: Last '' @ str_int (months s) @ '' months'', replicate 80 CHR ''='', []]"

definition text_item :: "env \<Rightarrow> item \<Rightarrow> string list" where
  "text_item e i =
     [''  ['' @ upper (category i) @ ''] '' @ item_plain e i]
     @ (if urls i \<noteq> [] then ''    Links:'' # map (\<lambda>u. ''      - '' @ u) (urls i) else [])
     @ [[]]"

definition text_release :: "env \<Rightarrow> release \<Rightarrow> string list" where
  "text_release e r =
     [nl @ ''## '' @ date_str r, replicate 40 CHR ''-''] @ concat (map (text_item e) (items r))"

definition text_stats :: "release list \<Rightarrow> string list" where
  "text_stats rs =
     [nl @ replicate 80 CHR ''='', ''STATISTICS'', replicate 40 CHR ''-'',
      ''Total releases: '' @ str_nat (length rs),
      ''Total items: '' @ str_nat (length (all_items rs))]
     @ (if category_counts rs \<noteq> []
        then (nl @ ''Items by category:'')
               # map (\<lambda>(c, n). ''  - '' @ c @ '': '' @ str_nat n) (sorted_counts rs)
        else [])"

definition format_text :: "scraper \<Rightarrow> env \<Rightarrow> release list \<Rightarrow> string" where
  "format_text s e rels =
     (if rels = []
      then join nl (text_header s e @ [''No releases found in the specified time range.''])
      else (let rs = sort_releases rels
            in join nl (text_header s e @ concat (map (text_release e) rs) @ text_stats rs)))"

subsubsection \<open>\<open>_format_markdown\<close>\<close>

definition markdown_header :: "scraper \<Rightarrow> env \<Rightarrow> string list" where
  "markdown_header s e =
     [''# Release Notes Summary'' @ nl,
      ''**Source:** ['' @ scraper_url s @ '']('' @ scraper_url s @ '')  '',
      ''**Generated:** '' @ now_text e @ ''  '',
      ''**Time range:** Last '' @ str_int (months s) @ '' months'' @ nl,
      ''---'' @ nl]"

definition markdown_item :: "env \<Rightarrow> item \<Rightarrow> string list" where
  "markdown_item e i =
     (''- `'' @ category i @ ''` '' @ item_plain e i)
       # (if urls i \<noteq> [] then map (\<lambda>u. ''  - [Link]('' @ u @ '')'') (urls i) else [])"

definition markdown_release :: "env \<Rightarrow> release \<Rightarrow> string list" where
  "markdown_release e r =
     [nl @ ''## '' @ date_str r @ nl] @ concat (map (markdown_item e) (items r)) @ [[]]"

definition markdown_stats :: "release list \<Rightarrow> string list" where
  "markdown_stats rs =
     [nl @ ''---'' @ nl, ''## Statistics'' @ nl,
      ''- **Total releases:** '' @ str_nat (length rs),
      ''- **Total items:** '' @ str_nat (length (all_items rs))]
     @ (if category_counts rs \<noteq> []
        then (nl @ ''### Items by category'' @ nl)
               # map (\<lambda>(c, n). ''- `'' @ c @ ''`: '' @ str_nat n) (sorted_counts rs)
        else [])"

definition format_markdown :: "scraper \<Rightarrow> env \<Rightarrow> release list \<Rightarrow> string" where
  "format_markdown s e rels =
     (if rels = []
      then join nl (markdown_header s e @ [''*No releases found in the specified time range.*''])
      else (let rs = sort_releases rels
            in join nl (markdown_header s e @ concat (map (markdown_release e) rs)
                          @ markdown_stats rs)))"

subsubsection \<open>\<open>_format_json\<close>\<close>

definition json_item :: "env \<Rightarrow> item \<Rightarrow> json" where
  "json_item e i =
     JObj [(''text'', JStr (item_plain e i)), (''category'', JStr (category i)),
           (''urls'', JList (map JStr (urls i)))]"

definition json_release :: "env \<Rightarrow> release \<Rightarrow> json" where
  "json_release e r =
     JObj [(''date'', (case date r of Some d \<Rightarrow> JStr (isoformat e d) | None \<Rightarrow> JNull)),
           (''date_str'', JStr (date_str r)),
           (''items'', JList (map (json_item e) (items r))),
           (''url'', JStr (url r))]"

definition json_output :: "scraper \<Rightarrow> env \<Rightarrow> release list \<Rightarrow> json" where
  \<comment> \<open>the dict \<open>output\<close>, for the sorted list\<close>
  "json_output s e rs =
     JObj [(''metadata'',
              JObj [(''source'', JStr (scraper_url s)), (''generated'', JStr (now_iso e)),
                    (''time_range_months'', JInt (months s)),
                    (''cutoff_date'', JStr (isoformat e (cutoff_date s)))]),
           (''statistics'',
              JObj [(''total_releases'', JInt (int (length rs))),
                    (''total_items'', JInt (int (length (all_items rs))))]),
           (''releases'', JList (map (json_release e) rs))]"

definition format_json :: "scraper \<Rightarrow> env \<Rightarrow> release list \<Rightarrow> string" where
  "format_json s e rels = dumps e (json_output s e (sort_releases rels))"

subsubsection \<open>\<open>_format_html\<close>\<close>

definition html_head :: "string list" where
  \<comment> \<open>the document head with the static stylesheet, up to the opening of the meta block\<close>
  \<open>html_head =
    [''<!DOCTYPE html>'',
     ''<html lang="en">'',
     ''<head>'',
     ''    <meta charset="UTF-8">'',
     ''    <meta name="viewport" content="width=device-width, initial-scale=1.0">'',
     ''    <title>Release Notes Summary</title>'',
     ''    <style>'',
     ''        body {'',
     ''            font-family: -apple-system, BlinkMacSystemFont, "Segoe UI", Roboto, "Helvetica Neue", Arial, sans-serif;'',
     ''            line-height: 1.6;'',
     ''            max-width: 1200px;'',
     ''            margin: 0 auto;'',
     ''            padding: 20px;'',
     ''            background: #f5f5f5;'',
     ''        }'',
     ''        .header {'',
     ''            background: linear-gradient(135deg, #667eea 0%, #764ba2 100%);'',
     ''            color: white;'',
     ''            padding: 30px;'',
     ''            border-radius: 10px;'',
     ''            margin-bottom: 30px;'',
     ''        }'',
     ''        .header h1 {'',
     ''            margin: 0;'',
     ''            font-size: 2em;'',
     ''        }'',
     ''        .meta {'',
     ''            opacity: 0.9;'',
     ''            margin-top: 10px;'',
     ''        }'',
     ''        .release-date {'',
     ''            background: white;'',
     ''            border-radius: 8px;'',
     ''            padding: 20px;'',
     ''            margin-bottom: 20px;'',
     ''            box-shadow: 0 2px 4px rgba(0,0,0,0.1);'',
     ''        }'',
     ''        .release-date h2 {'',
     ''            color: #333;'',
     ''            margin-top: 0;'',
     ''            border-bottom: 2px solid #667eea;'',
     ''            padding-bottom: 10px;'',
     ''        }'',
     ''        .release-item {'',
     ''            margin: 15px 0;'',
     ''            padding: 10px;'',
     ''            background: #f9f9f9;'',
     ''            border-left: 4px solid #ccc;'',
     ''            border-radius: 4px;'',
     ''        }'',
     ''        .release-item.ga { border-left-color: #4CAF50; }'',
     ''        .release-item.publicpreview { border-left-color: #FF9800; }'',
     ''        .release-item.change { border-left-color: #2196F3; }'',
     ''        .release-item.announcement { border-left-color: #9C27B0; }'',
     ''        .release-item.breaking { border-left-color: #f44336; }'',
     ''        .release-item.deprecated { border-left-color: #f44336; }'',
     ''        .release-item.fixed { border-left-color: #00BCD4; }'',
     ''        .release-item.update { border-left-color: #795548; }'',
     ''        .release-item.libraries { border-left-color: #607D8B; }'',
     ''        .release-item.security { border-left-color: #E91E63; }'',
     ''        .release-item.issue { border-left-color: #ffc107; }'',
     ''        .category {'',
     ''            display: inline-block;'',
     ''            padding: 2px 8px;'',
     ''            border-radius: 3px;'',
     ''            font-size: 0.85em;'',
     ''            font-weight: bold;'',
     ''            margin-right: 10px;'',
     ''        }'',
     ''        .category.ga { background: #4CAF50; color: white; }'',
     ''        .category.publicpreview { background: #FF9800; color: white; }'',
     ''        .category.change { background: #2196F3; color: white; }'',
     ''        .category.announcement { background: #9C27B0; color: white; }'',
     ''        .category.breaking { background: #E91E63; color: white; }'',
     ''        .category.deprecated { background: #f44336; color: white; }'',
     ''        .category.fixed { background: #00BCD4; color: white; }'',
     ''        .category.update { background: #795548; color: white; }'',
     ''        .category.libraries { background: #607D8B; color: white; }'',
     ''        .category.security { background: #E91E63; color: white; }'',
     ''        .category.issue { background: #ffc107; color: white; }'',
     ''        .stats {'',
     ''            background: white;'',
     ''            border-radius: 8px;'',
     ''            padding: 20px;'',
     ''            margin-top: 30px;'',
     ''            box-shadow: 0 2px 4px rgba(0,0,0,0.1);'',
     ''        }'',
     ''        .stats h2 {'',
     ''            color: #333;'',
     ''            margin-top: 0;'',
     ''        }'',
     ''        a {'',
     ''            color: #667eea;'',
     ''            text-decoration: none;'',
     ''        }'',
     ''        a:hover {'',
     ''            text-decoration: underline;'',
     ''        }'',
     ''        .source-link {'',
     ''            margin-top: 20px;'',
     ''            text-align: center;'',
     ''        }'',
     ''        .item-source {'',
     ''            font-size: 0.8em;'',
     ''            margin-top: 5px;'',
     ''            opacity: 0.7;'',
     ''        }'',
     ''        .no-results {'',
     ''            background: #fff3cd;'',
     ''            border: 1px solid #ffc107;'',
     ''            border-radius: 5px;'',
     ''            padding: 20px;'',
     ''            margin: 20px 0;'',
     ''            text-align: center;'',
     ''        }'',
     ''    </style>'',
     ''</head>'',
     ''<body>'',
     ''    <div class="header">'',
     ''        <h1>Release Notes Summary</h1>'',
     ''        <div class="meta">'']\<close>

definition html_meta :: "scraper \<Rightarrow> env \<Rightarrow> string list" where
  \<open>html_meta s e =
    [''            <p>Generated: '' @ now_text e @ ''</p>'',
     ''            <p>Source: <a href="'' @ scraper_url s
        @ ''" style="color: white; text-decoration: underline;">'' @ scraper_url s @ ''</a></p>'',
     ''            <p>Time range: Last '' @ str_int (months s) @ '' months</p>'',
     ''        </div>'',
     ''    </div>'']\<close>

definition html_no_results :: "scraper \<Rightarrow> string list" where
  \<open>html_no_results s =
    [''    <div class="no-results">'',
     ''        <h2>No Release Notes Found</h2>'',
     ''        <p>No release notes were found in the specified time range.</p>'',
     ''        <p>This could be due to:</p>'',
     ''        <ul style="text-align: left; display: inline-block;">'',
     ''            <li>No releases in the past '' @ str_int (months s) @ '' months</li>'',
     ''            <li>Different page structure than expected</li>'',
     ''            <li>Content loaded dynamically via JavaScript</li>'',
     ''        </ul>'',
     ''    </div>'']\<close>

definition html_item :: "item \<Rightarrow> string list" where
  \<open>html_item i =
    (let category_class = replace ''-'' [] (category i) in
     [''        <div class="release-item '' @ category_class @ ''">'',
      ''            <span class="category '' @ category_class @ ''">''
         @ upper (replace ''-'' '' '' (category i)) @ ''</span>'',
      ''            '' @ item_text i,
      ''        </div>''])\<close>

definition html_release :: "release \<Rightarrow> string list" where
  \<open>html_release r =
    [''    <div class="release-date">'', ''        <h2>'' @ date_str r @ ''</h2>'']
    @ concat (map html_item (items r)) @ [''    </div>'']\<close>

definition display_name :: "string \<Rightarrow> string" where
  "display_name c =
     (if c = ''ga'' then ''GA (Generally Available)''
      else if c = ''public-preview'' then ''Public Preview''
      else if c = ''breaking'' then ''Breaking''
      else title (replace ''-'' '' '' c))"

definition present_dates :: "release list \<Rightarrow> datetime list" where
  \<comment> \<open>\<open>r['date'] for r in releases if r['date']\<close>\<close>
  "present_dates rs = concat (map (\<lambda>r. case date r of Some d \<Rightarrow> [d] | None \<Rightarrow> []) rs)"

definition html_range :: "scraper \<Rightarrow> env \<Rightarrow> release list \<Rightarrow> exn + string" where
  \<comment> \<open>\<open>min\<close> and \<open>max\<close> of an empty sequence raise ValueError\<close>
  "html_range s e rs =
     (if rs \<noteq> [] then
        (case present_dates rs of
           [] \<Rightarrow> Inl ValueError
         | d # ds \<Rightarrow> Inr (''        <p><strong>Date Range:</strong> ''
                          @ ymd_text e (fold min ds d) @ '' to '' @ ymd_text e (fold max ds d)
                          @ ''</p>''))
      else Inr (''        <p><strong>Search Range:</strong> '' @ ymd_text e (cutoff_date s)
                  @ '' to '' @ today e @ ''</p>''))"

definition html_categories :: "release list \<Rightarrow> string list" where
  "html_categories rs =
     (if rs \<noteq> [] \<and> category_counts rs \<noteq> []
      then [''        <h3>Items by Category</h3>'', ''        <ul>'']
           @ map (\<lambda>(c, n). ''            <li><strong>'' @ display_name c @ '':</strong> ''
                              @ str_nat n @ ''</li>'') (sorted_counts rs)
           @ [''        </ul>'']
      else [])"

definition html_tail :: "scraper \<Rightarrow> string list" where
  \<open>html_tail s =
    [''    </div>'',
     ''    <div class="source-link">'',
     ''        <a href="'' @ scraper_url s @ ''" target="_blank">View Full Release Notes</a>'',
     ''    </div>'',
     ''</body>'',
     ''</html>'']\<close>

definition html_body :: "scraper \<Rightarrow> release list \<Rightarrow> string list" where
  "html_body s rs = (if rs = [] then html_no_results s else concat (map html_release rs))"

definition html_stats_head :: "release list \<Rightarrow> string list" where
  \<open>html_stats_head rs =
    [''    <div class="stats">'',
     ''        <h2>Summary Statistics</h2>'',
     ''        <p><strong>Total Releases:</strong> '' @ str_nat (length rs) @ ''</p>'',
     ''        <p><strong>Total Items:</strong> '' @ str_nat (length (all_items rs)) @ ''</p>'']\<close>

definition format_html :: "scraper \<Rightarrow> env \<Rightarrow> release list \<Rightarrow> exn + string" where
  "format_html s e rels =
     (let rs = sort_releases rels in
      case html_range s e rs of
        Inl x \<Rightarrow> Inl x
      | Inr range_line \<Rightarrow>
          Inr (join nl (html_head @ html_meta s e @ html_body s rs @ html_stats_head rs
                        @ [range_line] @ html_categories rs @ html_tail s)))"


subsection \<open>\<open>main\<close>, from the call of \<open>scrape\<close> on\<close>

text \<open>
  The exit status of the process, what it printed on standard output and what it wrote
  to the output file. An exception that nothing catches ends the process with status 1.
\<close>

record run =
  exit_status :: int
  printed :: "string option"
  saved :: "(string \<times> string) option"


subsection \<open>Example inputs\<close>

definition feature_security_preview :: element where
  \<open>feature_security_preview =
     \<lparr>name = ''div'', classes = [''release-feature''],
      get_text = ''Security scanning (Preview) is now available'',
      markup = ''<div class="release-feature"><p>Security scanning (Preview) is now available</p></div>'',
      hrefs = []\<rparr>\<close>

definition security_preview_paragraph :: element where
  \<open>security_preview_paragraph =
     \<lparr>name = ''p'', classes = [],
      get_text = ''Security patch for the beta API (Preview)'',
      markup = ''<p>Security patch for the beta API (Preview)</p>'',
      hrefs = []\<rparr>\<close>

definition feature_upper_preview :: element where
  \<open>feature_upper_preview =
     \<lparr>name = ''div'', classes = [''release-feature''],
      get_text = ''Cloud Run jobs (PREVIEW) are now available'',
      markup = ''<div class="release-feature"><p>Cloud Run jobs (PREVIEW) are now available</p></div>'',
      hrefs = []\<rparr>\<close>

definition short_feature :: sibling where
  \<open>short_feature =
     \<lparr>el = \<lparr>name = ''div'', classes = [''release-feature''], get_text = ''New UI'',
             markup = ''<div class="release-feature">New UI</div>'', hrefs = []\<rparr>,
      lis = []\<rparr>\<close>

definition long_feature :: sibling where
  \<open>long_feature =
     \<lparr>el = \<lparr>name = ''div'', classes = [''release-feature''],
             get_text = ''Direct VPC egress is generally available'',
             markup = ''<div class="release-feature">Direct VPC egress is generally available</div>'',
             hrefs = []\<rparr>,
      lis = []\<rparr>\<close>

definition bullet :: element where
  \<open>bullet = \<lparr>name = ''li'', classes = [], get_text = ''Bug fixes.'',
              markup = ''<li>Bug fixes.</li>'', hrefs = []\<rparr>\<close>

definition duplicate_bullets :: sibling where
  \<open>duplicate_bullets =
     \<lparr>el = \<lparr>name = ''ul'', classes = [], get_text = ''Bug fixes.Bug fixes.'',
             markup = ''<ul><li>Bug fixes.</li><li>Bug fixes.</li></ul>'', hrefs = []\<rparr>,
      lis = [bullet, bullet]\<rparr>\<close>

definition table_sibling :: sibling where
  \<open>table_sibling =
     \<lparr>el = \<lparr>name = ''table'', classes = [], get_text = ''Region us-east1 is now supported'',
             markup = ''<table><tr><td>Region us-east1 is now supported</td></tr></table>'',
             hrefs = []\<rparr>,
      lis = []\<rparr>\<close>

definition example_now :: datetime where
  \<comment> \<open>2024-06-15T12:00:00\<close>
  "example_now = (ymd2ord 2024 6 15 - 1) * microseconds_per_day + 43200000000"

definition example_scraper :: scraper where
  \<comment> \<open>the scraper that \<open>__init__\<close> builds at \<open>example_now\<close> for 12 months\<close>
  "example_scraper =
     \<lparr>scraper_url = ''https://cloud.google.com/run/docs/release-notes'', months = 12,
      cutoff_date = example_now - 360 * microseconds_per_day, releases = [],
      platform = ''google_cloud''\<rparr>"



definition feature_a :: element where
  \<open>feature_a =
     \<lparr>name = ''div'', classes = [''release-feature''],
      get_text = ''Direct VPC egress is generally available'',
      markup = ''<div class="release-feature" id="a">Direct VPC egress is generally available</div>'',
      hrefs = []\<rparr>\<close>

definition feature_b :: element where
  \<open>feature_b =
     \<lparr>name = ''div'', classes = [''release-feature''],
      get_text = ''Direct VPC egress is generally available'',
      markup = ''<div class="release-feature" id="b">Direct VPC egress is generally available</div>'',
      hrefs = []\<rparr>\<close>

definition marked_page :: content_area where
  \<comment> \<open>\<^verbatim>\<open><main><p>Released 2024-05-01</p><div class="release-feature" id="a">...</div><div
      class="release-feature" id="b">...</div></main>\<close>, both divs with the text "Direct VPC
      egress is generally available"\<close>
  "marked_page =
     \<lparr>find_all = (\<lambda>t. []),
      release_divs =
        [\<lparr>div_el = feature_a,
          neighbours = [Some ''Released 2024-05-01'',
             Some (''Released 2024-05-01'' @ get_text feature_a @ get_text feature_b),
             Some (get_text feature_b)]\<rparr>,
         \<lparr>div_el = feature_b,
          neighbours = [Some (get_text feature_a),
             Some (''Released 2024-05-01'' @ get_text feature_a @ get_text feature_b),
             None]\<rparr>],
      all_text_elements = [''Released 2024-05-01'', get_text feature_a, get_text feature_b]\<rparr>"

definition dated_text_page :: content_area where
  \<comment> \<open>\<^verbatim>\<open><main><p id="a">Update 2024-05-01: new feature shipped today</p><p id="b">Update
      2024-05-01: new feature shipped today</p></main>\<close>\<close>
  "dated_text_page =
     \<lparr>find_all = (\<lambda>t. []), release_divs = [],
      all_text_elements = [''Update 2024-05-01: new feature shipped today'',
                           ''Update 2024-05-01: new feature shipped today'']\<rparr>"

definition release_dated :: "datetime option \<Rightarrow> release" where
  "release_dated d =
     \<lparr>date = d, date_str = ''a date'', items = [make_item feature_a],
      url = ''https://cloud.google.com/run/docs/release-notes''\<rparr>"

definition example_env :: env where
  \<comment> \<open>stand-ins for the outside world: markup is its own text, datetimes print as
      numbers, every write succeeds\<close>
  "example_env =
     \<lparr>now_text = ''2024-06-15 12:00:00'', now_iso = ''2024-06-15T12:00:00'',
      today = ''2024-06-15'', plain_text = (\<lambda>m. m), isoformat = str_int, ymd_text = str_int,
      dumps = (\<lambda>j. ''{}''), write_file = (\<lambda>f out. None)\<rparr>"


definition collected_scraper :: scraper where
  \<comment> \<open>the example scraper after an extraction: an older group, a newer group, a group
      without a date and a group from before the cutoff\<close>
  "collected_scraper =
     example_scraper\<lparr>releases :=
       [release_dated (Some (example_now - 30 * microseconds_per_day)),
        release_dated (Some (example_now - 2 * microseconds_per_day)),
        release_dated None,
        release_dated (Some (example_now - 400 * microseconds_per_day))]\<rparr>"



section \<open>Properties\<close>

subsection \<open>The date recognizer\<close>

lemma datetime_ymd_error: "datetime_ymd y m d = Inl e \<Longrightarrow> e = ValueError"
  by (auto simp: datetime_ymd_def split: if_splits)

lemma strptime_error: "strptime s f = Inl e \<Longrightarrow> e = ValueError"
  by (auto simp: strptime_def split: option.splits prod.splits if_splits dest: datetime_ymd_error)

lemma try_formats_total: "\<exists>r. try_formats s fs = Inr r"
  by (induction fs) (auto split: sum.splits dest: strptime_error)

lemma parse_date_total: "\<exists>r. parse_date s = Inr r"
  by (simp add: parse_date_def try_formats_total)

lemma try_formats_Some:
  "try_formats s fs = Inr (Some d) \<longleftrightarrow>
     (\<exists>i < length fs. strptime s (fs ! i) = Inr d \<and> (\<forall>j < i. strptime s (fs ! j) = Inl ValueError))"
proof (induction fs)
  case Nil
  show ?case by simp
next
  case (Cons f fs)
  show ?case
  proof (cases "strptime s f")
    case (Inr d')
    have "(\<exists>i < length (f # fs). strptime s ((f # fs) ! i) = Inr d \<and>
            (\<forall>j < i. strptime s ((f # fs) ! j) = Inl ValueError)) \<longleftrightarrow> d' = d"
    proof
      assume "\<exists>i < length (f # fs). strptime s ((f # fs) ! i) = Inr d \<and>
            (\<forall>j < i. strptime s ((f # fs) ! j) = Inl ValueError)"
      then obtain i where i: "strptime s ((f # fs) ! i) = Inr d"
        "\<forall>j < i. strptime s ((f # fs) ! j) = Inl ValueError" by blast
      show "d' = d"
      proof (cases i)
        case 0
        with i Inr show ?thesis by simp
      next
        case (Suc k)
        with i(2) have "strptime s ((f # fs) ! 0) = Inl ValueError" by blast
        with Inr show ?thesis by simp
      qed
    next
      assume "d' = d"
      with Inr have "strptime s ((f # fs) ! 0) = Inr d \<and>
            (\<forall>j < 0. strptime s ((f # fs) ! j) = Inl ValueError)" by simp
      then show "\<exists>i < length (f # fs). strptime s ((f # fs) ! i) = Inr d \<and>
            (\<forall>j < i. strptime s ((f # fs) ! j) = Inl ValueError)" by blast
    qed
    with Inr show ?thesis by auto
  next
    case (Inl e)
    then have e: "strptime s f = Inl ValueError" using strptime_error by blast
    have "(\<exists>i < length (f # fs). strptime s ((f # fs) ! i) = Inr d \<and>
            (\<forall>j < i. strptime s ((f # fs) ! j) = Inl ValueError)) \<longleftrightarrow>
          (\<exists>i < length fs. strptime s (fs ! i) = Inr d \<and>
            (\<forall>j < i. strptime s (fs ! j) = Inl ValueError))" (is "?L \<longleftrightarrow> ?R")
    proof
      assume ?L
      then obtain i where i: "i < length (f # fs)" "strptime s ((f # fs) ! i) = Inr d"
        "\<forall>j < i. strptime s ((f # fs) ! j) = Inl ValueError" by blast
      from i(2) e obtain k where k: "i = Suc k" by (cases i) auto
      have "\<forall>j < k. strptime s (fs ! j) = Inl ValueError"
      proof (intro allI impI)
        fix j assume "j < k"
        then have "Suc j < i" using k by simp
        with i(3) have "strptime s ((f # fs) ! Suc j) = Inl ValueError" by blast
        then show "strptime s (fs ! j) = Inl ValueError" by simp
      qed
      with i(1,2) k show ?R by auto
    next
      assume ?R
      then obtain i where i: "i < length fs" "strptime s (fs ! i) = Inr d"
        "\<forall>j < i. strptime s (fs ! j) = Inl ValueError" by blast
      have "\<forall>j < Suc i. strptime s ((f # fs) ! j) = Inl ValueError"
      proof (intro allI impI)
        fix j assume "j < Suc i"
        then show "strptime s ((f # fs) ! j) = Inl ValueError"
          using e i(3) by (cases j) auto
      qed
      moreover have "Suc i < length (f # fs)" "strptime s ((f # fs) ! Suc i) = Inr d"
        using i by auto
      ultimately show ?L by blast
    qed
    with e Cons.IH show ?thesis by simp
  qed
qed

lemma try_formats_None:
  "try_formats s fs = Inr None \<longleftrightarrow> (\<forall>f \<in> set fs. strptime s f = Inl ValueError)"
  by (induction fs) (auto split: sum.splits dest: strptime_error)

lemma day_first_example:
  "strptime ''13/02/2024'' ''%m/%d/%Y'' = Inl ValueError"
  "strptime ''13/02/2024'' ''%d/%m/%Y'' = datetime_ymd 2024 2 13"
  "parse_date ''13/02/2024'' = Inr (Some 63843379200000000)"
  "datetime_ymd 2024 2 13 = Inr 63843379200000000"
  by code_simp+

lemma us_order_example:
  "list_all (\<lambda>f. strptime ''01/15/2024'' f = Inl ValueError) (take 3 formats)"
  "strptime ''01/15/2024'' ''%m/%d/%Y'' = datetime_ymd 2024 1 15"
  "parse_date ''01/15/2024'' = Inr (Some 63840873600000000)"
  "datetime_ymd 2024 1 15 = Inr 63840873600000000"
  by code_simp+

lemma format_examples:
  "strptime ''January 15, 2024'' (formats ! 0) = datetime_ymd 2024 1 15"
  "strptime ''Jan 15, 2024'' (formats ! 1) = datetime_ymd 2024 1 15"
  "strptime ''2024-01-15'' (formats ! 2) = datetime_ymd 2024 1 15"
  by code_simp+

text \<open>NEL and NBSP are whitespace for \<open>strip\<close> and for the blank of a format.\<close>

lemma no_break_space_example:
  "parse_date ([CHR 0x85] @ ''January'' @ [CHR 0xA0] @ ''15, 2024'' @ [CHR 0xA0])
     = Inr (Some 63840873600000000)"
  by code_simp

text \<open>
  C1. For every input string (of code points below 256) \<open>_parse_date\<close> returns and
  does not raise. It returns the
  date of the first format, in the order full month name, abbreviated month name, ISO,
  month/day/year, day/month/year, that parses the stripped string, and None exactly when
  none of the five parses. \<open>13/02/2024\<close> fails month/day/year and is 2024-02-13 by
  day/month/year; \<open>01/15/2024\<close> fails the first three formats and is 2024-01-15 by
  month/day/year. Whitespace around the date, also NEL and NBSP, is stripped, and NBSP
  between month and day is a blank.
\<close>

theorem parse_date_first_format:
  "(\<exists>r. parse_date s = Inr r)
   \<and> (parse_date s = Inr (Some d) \<longleftrightarrow>
        (\<exists>i < length formats. strptime (strip s) (formats ! i) = Inr d
            \<and> (\<forall>j < i. strptime (strip s) (formats ! j) = Inl ValueError)))
   \<and> (parse_date s = Inr None \<longleftrightarrow> (\<forall>f \<in> set formats. strptime (strip s) f = Inl ValueError))
   \<and> formats = [''%B %d, %Y'', ''%b %d, %Y'', ''%Y-%m-%d'', ''%m/%d/%Y'', ''%d/%m/%Y'']
   \<and> strptime ''January 15, 2024'' (formats ! 0) = datetime_ymd 2024 1 15
   \<and> strptime ''Jan 15, 2024'' (formats ! 1) = datetime_ymd 2024 1 15
   \<and> strptime ''2024-01-15'' (formats ! 2) = datetime_ymd 2024 1 15
   \<and> strptime ''13/02/2024'' (formats ! 3) = Inl ValueError
   \<and> strptime ''13/02/2024'' (formats ! 4) = datetime_ymd 2024 2 13
   \<and> (\<exists>t. datetime_ymd 2024 2 13 = Inr t \<and> parse_date ''13/02/2024'' = Inr (Some t))
   \<and> list_all (\<lambda>f. strptime ''01/15/2024'' f = Inl ValueError) (take 3 formats)
   \<and> strptime ''01/15/2024'' (formats ! 3) = datetime_ymd 2024 1 15
   \<and> (\<exists>t. datetime_ymd 2024 1 15 = Inr t \<and> parse_date ''01/15/2024'' = Inr (Some t))
   \<and> (\<exists>t. datetime_ymd 2024 1 15 = Inr t
          \<and> parse_date ([CHR 0x85] @ ''January'' @ [CHR 0xA0] @ ''15, 2024'' @ [CHR 0xA0])
              = Inr (Some t))"
proof -
  have "parse_date s = Inr (Some d) \<longleftrightarrow>
        (\<exists>i < length formats. strptime (strip s) (formats ! i) = Inr d
            \<and> (\<forall>j < i. strptime (strip s) (formats ! j) = Inl ValueError))"
    unfolding parse_date_def by (rule try_formats_Some)
  moreover have "parse_date s = Inr None \<longleftrightarrow>
        (\<forall>f \<in> set formats. strptime (strip s) f = Inl ValueError)"
    unfolding parse_date_def by (rule try_formats_None)
  moreover have "formats ! 3 = ''%m/%d/%Y''" "formats ! 4 = ''%d/%m/%Y''"
    by (simp_all add: formats_def)
  ultimately show ?thesis
    using parse_date_total [of s] day_first_example us_order_example format_examples
      no_break_space_example
    by (simp add: formats_def)
qed

theorem parse_date_first_format_witness:
  "parse_date ''  13/02/2024 '' = Inr (Some 63843379200000000)
   \<and> (\<exists>i < length formats. strptime (strip ''  13/02/2024 '') (formats ! i) = Inr 63843379200000000
          \<and> (\<forall>j < i. strptime (strip ''  13/02/2024 '') (formats ! j) = Inl ValueError))
   \<and> parse_date ''13th of February'' = Inr None
   \<and> list_all (\<lambda>f. strptime (strip ''13th of February'') f = Inl ValueError) formats
   \<and> parse_date (''Jan'' @ [CHR 0xA0] @ ''15, 2024'') = Inr (Some 63840873600000000)
   \<and> strptime (strip (''Jan'' @ [CHR 0xA0] @ ''15, 2024'')) (formats ! 0) = Inl ValueError
   \<and> strptime (strip (''Jan'' @ [CHR 0xA0] @ ''15, 2024'')) (formats ! 1)
        = Inr 63840873600000000"
proof -
  have a: "parse_date ''  13/02/2024 '' = Inr (Some 63843379200000000)" by code_simp
  have c: "parse_date (''Jan'' @ [CHR 0xA0] @ ''15, 2024'') = Inr (Some 63840873600000000)"
    "strptime (strip (''Jan'' @ [CHR 0xA0] @ ''15, 2024'')) (formats ! 0) = Inl ValueError"
    "strptime (strip (''Jan'' @ [CHR 0xA0] @ ''15, 2024'')) (formats ! 1)
        = Inr 63840873600000000"
    by code_simp+
  have b: "parse_date ''13th of February'' = Inr None" by code_simp
  from a parse_date_first_format [of "''  13/02/2024 ''" 63843379200000000]
  have "\<exists>i < length formats. strptime (strip ''  13/02/2024 '') (formats ! i) = Inr 63843379200000000
          \<and> (\<forall>j < i. strptime (strip ''  13/02/2024 '') (formats ! j) = Inl ValueError)"
    by blast
  moreover from b parse_date_first_format [of "''13th of February''" 0]
  have "\<forall>f \<in> set formats. strptime (strip ''13th of February'') f = Inl ValueError"
    by blast
  ultimately show ?thesis using a b c by (simp add: list_all_iff)
qed

subsection \<open>The categorizer\<close>

lemma sublist_join: "x \<in> set xs \<Longrightarrow> sublist x (join sep xs)"
proof (induction sep xs rule: join.induct)
  case (1 sep)
  then show ?case by simp
next
  case (2 sep x')
  then show ?case by simp
next
  case (3 sep a b ys)
  show ?case
  proof (cases "x = a")
    case True
    then show ?thesis by simp
  next
    case False
    with 3 have "sublist x (join sep (b # ys))" by simp
    then obtain ps ss where "join sep (b # ys) = ps @ x @ ss" by (auto simp: sublist_def)
    then have "join sep (a # b # ys) = (a @ sep @ ps) @ x @ ss" by simp
    then show ?thesis unfolding sublist_def by blast
  qed
qed

lemma role_marked_hint:
  assumes "role_marked e"
  shows "\<exists>c. hint_category e = Some c \<and>
            c \<in> set [''public-preview'', ''ga'', ''change'', ''announcement'', ''breaking'', ''issue'']"
proof -
  from assms obtain cls where cls: "cls \<in> set (classes e)" "cls \<in> set role_classes"
    by (auto simp: role_marked_def list_ex_iff)
  then have "sublist cls (join '' '' (classes e))" by (simp add: sublist_join)
  with cls(2) have "sublist ''release-feature'' (join '' '' (classes e))
      \<or> sublist ''release-changed'' (join '' '' (classes e))
      \<or> sublist ''release-announcement'' (join '' '' (classes e))
      \<or> sublist ''release-breaking'' (join '' '' (classes e))
      \<or> sublist ''release-issue'' (join '' '' (classes e))"
    by (auto simp: role_classes_def)
  then show ?thesis
    by (auto simp: hint_category_def Let_def)
qed

lemma keyword_category_first_hit: "keyword_category txt = first_hit keyword_rules (lower txt)"
  by (simp add: keyword_category_def keyword_rules_def Let_def)

lemma first_hit_index:
  "i < length rules \<Longrightarrow> any_in (fst (rules ! i)) x \<Longrightarrow>
   (\<forall>j < i. \<not> any_in (fst (rules ! j)) x) \<Longrightarrow> first_hit rules x = snd (rules ! i)"
proof (induction rules x arbitrary: i rule: first_hit.induct)
  case (1 s)
  then show ?case by simp
next
  case (2 ks c rules s)
  show ?case
  proof (cases i)
    case 0
    with 2 show ?thesis by simp
  next
    case (Suc k)
    with 2(4) have n0: "\<not> any_in ks s" by fastforce
    have "\<forall>j < k. \<not> any_in (fst (rules ! j)) s"
    proof (intro allI impI)
      fix j assume "j < k"
      then have "Suc j < i" using Suc by simp
      with 2(4) have "\<not> any_in (fst (((ks, c) # rules) ! Suc j)) s" by blast
      then show "\<not> any_in (fst (rules ! j)) s" by simp
    qed
    with 2 Suc n0 show ?thesis by simp
  qed
qed

lemma first_hit_default:
  "(\<forall>i < length rules. \<not> any_in (fst (rules ! i)) x) \<Longrightarrow> first_hit rules x = ''update''"
proof (induction rules x rule: first_hit.induct)
  case (1 s)
  then show ?case by simp
next
  case (2 ks c rules s)
  from 2(2) have "\<not> any_in (fst (((ks, c) # rules) ! 0)) s" by blast
  then have n0: "\<not> any_in ks s" by simp
  have "\<forall>i < length rules. \<not> any_in (fst (rules ! i)) s"
  proof (intro allI impI)
    fix i assume "i < length rules"
    then have "Suc i < length ((ks, c) # rules)" by simp
    with 2(2) have "\<not> any_in (fst (((ks, c) # rules) ! Suc i)) s" by blast
    then show "\<not> any_in (fst (rules ! i)) s" by simp
  qed
  with 2(1) n0 show ?case by simp
qed

lemma first_hit_empty: "first_hit keyword_rules [] = ''update''"
  by (simp add: keyword_rules_def any_in_def)

lemma lower_Nil: "lower [] = []"
  by (simp add: lower_def)

lemma categorize_hint: "hint_category e = Some c \<Longrightarrow> categorize_item (Some e) t = c"
  by (simp add: categorize_item_def)

lemma categorize_no_hint:
  "hint_category e = None \<Longrightarrow>
   categorize_item (Some e) t =
     first_hit keyword_rules (lower (if falsy t then get_text e else str_or_none t))"
  by (auto simp: categorize_item_def falsy_def str_or_none_def keyword_category_first_hit
      first_hit_empty lower_Nil Let_def split: option.splits)

lemma categorize_no_element:
  "categorize_item None t = first_hit keyword_rules (lower (str_or_none t))"
  by (auto simp: categorize_item_def falsy_def str_or_none_def keyword_category_first_hit
      first_hit_empty lower_Nil Let_def split: option.splits)

lemma security_first: "any_in security_terms x \<Longrightarrow> first_hit keyword_rules x = ''security''"
  by (simp add: security_terms_def keyword_rules_def)

lemma security_terms_nonempty: "any_in security_terms x \<Longrightarrow> x \<noteq> []"
  by (auto simp: security_terms_def keyword_rules_def any_in_def)

text \<open>
  C2, as stated, fails: the claim ends with "a text containing both a security term and
  a preview term is always categorized security", for every (structural hint, text) pair.
  An element of class \<open>release-feature\<close> whose text is "Security scanning (Preview) is now
  available" contains the security term "security" and the preview term "(preview)" and
  is categorized \<open>public-preview\<close> by the structural rule.
\<close>

theorem categorize_security_preview_counterexample:
  "any_in security_terms (lower (get_text feature_security_preview))
   \<and> any_in preview_terms (lower (get_text feature_security_preview))
   \<and> categorize_item (Some feature_security_preview) (Some (get_text feature_security_preview))
       = ''public-preview''
   \<and> categorize_item (Some feature_security_preview) (Some (get_text feature_security_preview))
       \<noteq> ''security''"
  by code_simp

text \<open>
  C2, amended. \<open>_categorize_item\<close> is a function of the element and the text. A structural
  rule that applies decides the category whatever the text is. When none applies (or
  there is no element), the category is that of the first rule of the keyword table, in the
  order security, breaking, public-preview, ga, deprecated, fixed, issue, change,
  announcement, libraries, one of whose keywords occurs in the lower-cased text, and
  \<open>update\<close> when no rule has one. So, when no structural rule applies, a text with a
  security term and a preview term is categorized \<open>security\<close>.
\<close>

theorem categorize_priority_order:
  "(hint_category e = Some c \<longrightarrow> categorize_item (Some e) t = c)
   \<and> (hint_category e = None \<longrightarrow>
        categorize_item (Some e) t =
          first_hit keyword_rules (lower (if falsy t then get_text e else str_or_none t)))
   \<and> categorize_item None t = first_hit keyword_rules (lower (str_or_none t))
   \<and> map snd keyword_rules =
        [''security'', ''breaking'', ''public-preview'', ''ga'', ''deprecated'', ''fixed'', ''issue'',
         ''change'', ''announcement'', ''libraries'']
   \<and> (\<forall>i < length keyword_rules.
          any_in (fst (keyword_rules ! i)) x \<and> (\<forall>j < i. \<not> any_in (fst (keyword_rules ! j)) x)
          \<longrightarrow> first_hit keyword_rules x = snd (keyword_rules ! i))
   \<and> ((\<forall>i < length keyword_rules. \<not> any_in (fst (keyword_rules ! i)) x)
          \<longrightarrow> first_hit keyword_rules x = ''update'')
   \<and> (any_in security_terms (lower s) \<and> any_in preview_terms (lower s) \<longrightarrow>
          categorize_item None (Some s) = ''security''
          \<and> (hint_category e = None \<longrightarrow> categorize_item (Some e) (Some s) = ''security''))"
proof -
  have sec: "categorize_item None (Some s) = ''security''
             \<and> (hint_category e = None \<longrightarrow> categorize_item (Some e) (Some s) = ''security'')"
    if "any_in security_terms (lower s)"
  proof -
    from that have "lower s \<noteq> []" by (rule security_terms_nonempty)
    then have "s \<noteq> []" by (auto simp: lower_def)
    with that show ?thesis
      by (simp add: categorize_no_element categorize_no_hint falsy_def str_or_none_def
          security_first)
  qed
  have "map snd keyword_rules =
        [''security'', ''breaking'', ''public-preview'', ''ga'', ''deprecated'', ''fixed'', ''issue'',
         ''change'', ''announcement'', ''libraries'']"
    by (simp add: keyword_rules_def)
  then show ?thesis
    using sec categorize_hint [of e c t] categorize_no_hint [of e t] categorize_no_element [of t]
      first_hit_index [of _ keyword_rules x] first_hit_default [of keyword_rules x]
    by blast
qed

theorem categorize_priority_order_witness:
  "hint_category security_preview_paragraph = None
   \<and> any_in security_terms (lower (get_text security_preview_paragraph))
   \<and> any_in preview_terms (lower (get_text security_preview_paragraph))
   \<and> categorize_item (Some security_preview_paragraph)
        (Some (get_text security_preview_paragraph)) = ''security''
   \<and> hint_category feature_security_preview = Some ''public-preview''
   \<and> categorize_item (Some feature_security_preview) None = ''public-preview''
   \<and> 2 < length keyword_rules
   \<and> any_in (fst (keyword_rules ! 2)) ''now in preview''
   \<and> first_hit keyword_rules ''now in preview'' = snd (keyword_rules ! 2)
   \<and> first_hit keyword_rules ''nothing to see'' = ''update''"
proof -
  have a: "hint_category security_preview_paragraph = None"
    "any_in security_terms (lower (get_text security_preview_paragraph))"
    "any_in preview_terms (lower (get_text security_preview_paragraph))"
    "hint_category feature_security_preview = Some ''public-preview''"
    by code_simp+
  have b: "(2::nat) < length keyword_rules" "any_in (fst (keyword_rules ! 2)) ''now in preview''"
    "\<forall>j < 2. \<not> any_in (fst (keyword_rules ! j)) ''now in preview''"
    by code_simp+
  have c: "\<forall>i < length keyword_rules. \<not> any_in (fst (keyword_rules ! i)) ''nothing to see''"
    by code_simp
  from a categorize_priority_order
    [of security_preview_paragraph _ _ _ "get_text security_preview_paragraph"]
  have 1: "categorize_item (Some security_preview_paragraph)
        (Some (get_text security_preview_paragraph)) = ''security''" by blast
  from a(4) categorize_priority_order [of feature_security_preview "''public-preview''" None]
  have 2: "categorize_item (Some feature_security_preview) None = ''public-preview''" by blast
  from b categorize_priority_order [of _ _ _ "''now in preview''"]
  have 3: "first_hit keyword_rules ''now in preview'' = snd (keyword_rules ! 2)" by blast
  from c categorize_priority_order [of _ _ _ "''nothing to see''"]
  have 4: "first_hit keyword_rules ''nothing to see'' = ''update''" by blast
  from a b 1 2 3 4 show ?thesis by simp
qed

text \<open>
  C7 (the code departs from the claim). For an element of class \<open>release-feature\<close> the
  code tests the two spellings \<open>(Preview)\<close> and \<open>(preview)\<close> only. The text "Cloud Run jobs
  (PREVIEW) are now available" contains the marker in another letter case and is
  categorized \<open>ga\<close>; the keyword rules, which lower-case the text, call the same text
  \<open>public-preview\<close>.
\<close>

theorem feature_preview_case_sensitive:
  "sublist ''release-feature'' (join '' '' (classes feature_upper_preview))
   \<and> sublist ''(preview)'' (lower (get_text feature_upper_preview))
   \<and> categorize_item (Some feature_upper_preview) (Some (get_text feature_upper_preview)) = ''ga''
   \<and> keyword_category (get_text feature_upper_preview) = ''public-preview''"
  by code_simp

subsection \<open>The sibling walk of the structured extractor\<close>

lemma walk_takeWhile:
  "walk hdrs ss = concat (map sibling_items (takeWhile (\<lambda>s. name (el s) \<notin> set hdrs) ss))"
  by (induction ss) auto

lemma long_item_length: "length (long_item n e) \<le> 1"
  by (simp add: long_item_def)

lemma long_item_payload: "i \<in> set (long_item n e) \<Longrightarrow> item_text i = markup e"
  by (auto simp: long_item_def make_item_def split: if_splits)

lemma distinct_short: "length xs \<le> 1 \<Longrightarrow> distinct xs"
  by (cases xs) auto

lemma role_branch: "role_marked (el s) \<Longrightarrow> sibling_items s = long_item 10 (el s)"
  by (simp add: sibling_items_def)

text \<open>
  C8, as stated, fails: a sibling of class \<open>release-feature\<close> whose text "New UI" has
  six characters is walked and yields no item, because the role-marker branch appends an
  item only when the text is longer than 10 characters.
\<close>

theorem role_marked_short_text_counterexample:
  "role_marked (el short_feature)
   \<and> name (el short_feature) \<notin> set (date_headers ''google_cloud'')
   \<and> sibling_items short_feature = []
   \<and> walk (date_headers ''google_cloud'') [short_feature] = []"
  by code_simp

text \<open>
  C8, amended. The walk visits the siblings up to the first one whose tag is a header tag
  and appends what each contributes. A sibling with a release-role class contributes one
  item when its flattened text is longer than 10 characters, and nothing otherwise. The
  item holds the sibling's markup, its links and the category that the structural rule for
  its role class gives.
\<close>

theorem role_marked_sibling_item:
  "walk hdrs ss = concat (map sibling_items (takeWhile (\<lambda>s. name (el s) \<notin> set hdrs) ss))
   \<and> (role_marked (el s) \<longrightarrow>
        sibling_items s =
          (if length (get_text (el s)) > 10
           then [\<lparr>item_text = markup (el s),
                   category = categorize_item (Some (el s)) (Some (get_text (el s))),
                   urls = hrefs (el s)\<rparr>]
           else [])
        \<and> (\<exists>c. hint_category (el s) = Some c
               \<and> categorize_item (Some (el s)) (Some (get_text (el s))) = c
               \<and> c \<in> set [''public-preview'', ''ga'', ''change'', ''announcement'', ''breaking'',
                            ''issue'']))"
proof -
  have "sibling_items s =
          (if length (get_text (el s)) > 10
           then [\<lparr>item_text = markup (el s),
                   category = categorize_item (Some (el s)) (Some (get_text (el s))),
                   urls = hrefs (el s)\<rparr>]
           else [])" if "role_marked (el s)"
    using that by (auto simp: role_branch long_item_def make_item_def)
  moreover have "\<exists>c. hint_category (el s) = Some c
               \<and> categorize_item (Some (el s)) (Some (get_text (el s))) = c
               \<and> c \<in> set [''public-preview'', ''ga'', ''change'', ''announcement'', ''breaking'',
                            ''issue'']" if "role_marked (el s)"
    using role_marked_hint [OF that] categorize_hint by blast
  ultimately show ?thesis using walk_takeWhile by blast
qed

theorem role_marked_sibling_item_witness:
  "role_marked (el long_feature)
   \<and> sibling_items long_feature =
       [\<lparr>item_text = markup (el long_feature), category = ''ga'', urls = []\<rparr>]
   \<and> role_marked (el short_feature)
   \<and> sibling_items short_feature = []
   \<and> walk [''h2'', ''h3''] [long_feature, short_feature] =
       [\<lparr>item_text = markup (el long_feature), category = ''ga'', urls = []\<rparr>]"
proof -
  have a: "role_marked (el long_feature)" "role_marked (el short_feature)"
    "length (get_text (el long_feature)) > 10" "\<not> length (get_text (el short_feature)) > 10"
    "hint_category (el long_feature) = Some ''ga''" "hrefs (el long_feature) = []"
    "takeWhile (\<lambda>s. name (el s) \<notin> set [''h2'', ''h3'']) [long_feature, short_feature]
       = [long_feature, short_feature]"
    by code_simp+
  from a(1,3,5,6) role_marked_sibling_item [of _ _ long_feature]
  have 1: "sibling_items long_feature =
       [\<lparr>item_text = markup (el long_feature), category = ''ga'', urls = []\<rparr>]"
    by auto
  from a(2,4) role_marked_sibling_item [of _ _ short_feature]
  have 2: "sibling_items short_feature = []"
    by auto
  from a(7) 1 2 role_marked_sibling_item [of "[''h2'', ''h3'']" "[long_feature, short_feature]"]
  have 3: "walk [''h2'', ''h3''] [long_feature, short_feature] =
       [\<lparr>item_text = markup (el long_feature), category = ''ga'', urls = []\<rparr>]"
    by simp
  from a 1 2 3 show ?thesis by simp
qed

text \<open>
  C10, as stated, fails twice. A list sibling with two equal entries contributes two items
  with the same raw payload, and a sibling that has no role class and is not one of
  \<open>p\<close>, \<open>ul\<close>, \<open>ol\<close>, \<open>li\<close>, \<open>div\<close> (here a table) is handled by no branch.
\<close>

theorem sibling_branches_counterexample:
  "map item_text (sibling_items duplicate_bullets) = [''<li>Bug fixes.</li>'', ''<li>Bug fixes.</li>'']
   \<and> \<not> distinct (map item_text (sibling_items duplicate_bullets))
   \<and> \<not> role_marked (el table_sibling)
   \<and> name (el table_sibling) \<notin> set [''p'', ''ul'', ''ol'', ''li'', ''div'']
   \<and> sibling_items table_sibling = []"
  by code_simp

text \<open>
  C10, amended. Every walked sibling is handled by at most one branch. One with a
  release-role class is handled by the role-marker branch alone, whatever its tag and its
  list entries are. Without a role class, a \<open>ul\<close> or \<open>ol\<close> contributes one item per
  list entry with a non-empty text, a \<open>p\<close>, \<open>li\<close> or \<open>div\<close> goes through the
  paragraph/container branch, and any other tag contributes nothing. So a sibling that has
  a role class, or is not a list, contributes at most one item, whose payload is its own
  markup.
\<close>

theorem sibling_one_branch:
  "(role_marked (el s) \<longrightarrow> sibling_items s = long_item 10 (el s))
   \<and> (\<not> role_marked (el s) \<and> name (el s) \<in> set [''ul'', ''ol''] \<longrightarrow>
        sibling_items s = concat (map li_item (lis s)))
   \<and> (\<not> role_marked (el s) \<and> name (el s) \<in> set [''p'', ''li'', ''div''] \<longrightarrow>
        sibling_items s = long_item 10 (el s))
   \<and> (\<not> role_marked (el s) \<and> name (el s) \<notin> set [''p'', ''ul'', ''ol'', ''li'', ''div''] \<longrightarrow>
        sibling_items s = [])
   \<and> (role_marked (el s) \<or> name (el s) \<notin> set [''ul'', ''ol''] \<longrightarrow>
        length (sibling_items s) \<le> 1
        \<and> distinct (map item_text (sibling_items s))
        \<and> set (map item_text (sibling_items s)) \<subseteq> {markup (el s)})"
proof -
  have one: "length (sibling_items s) \<le> 1
        \<and> distinct (map item_text (sibling_items s))
        \<and> set (map item_text (sibling_items s)) \<subseteq> {markup (el s)}"
    if "role_marked (el s) \<or> name (el s) \<notin> set [''ul'', ''ol'']"
  proof -
    from that have "sibling_items s = long_item 10 (el s) \<or> sibling_items s = []"
      by (auto simp: sibling_items_def)
    then show ?thesis
      using long_item_length [of 10 "el s"] long_item_payload [of _ 10 "el s"]
      by (auto intro: distinct_short)
  qed
  show ?thesis
    using one by (auto simp: sibling_items_def)
qed

theorem sibling_one_branch_witness:
  "role_marked (el long_feature)
   \<and> sibling_items long_feature = long_item 10 (el long_feature)
   \<and> length (sibling_items long_feature) \<le> 1
   \<and> \<not> role_marked (el duplicate_bullets)
   \<and> name (el duplicate_bullets) \<in> set [''ul'', ''ol'']
   \<and> sibling_items duplicate_bullets = concat (map li_item (lis duplicate_bullets))
   \<and> \<not> role_marked (el table_sibling)
   \<and> name (el table_sibling) \<notin> set [''p'', ''ul'', ''ol'', ''li'', ''div'']
   \<and> sibling_items table_sibling = []"
proof -
  have a: "role_marked (el long_feature)" "\<not> role_marked (el duplicate_bullets)"
    "name (el duplicate_bullets) \<in> set [''ul'', ''ol'']" "\<not> role_marked (el table_sibling)"
    "name (el table_sibling) \<notin> set [''p'', ''ul'', ''ol'', ''li'', ''div'']"
    by code_simp+
  from a(1) sibling_one_branch [of long_feature]
  have 1: "sibling_items long_feature = long_item 10 (el long_feature)"
    "length (sibling_items long_feature) \<le> 1" by blast+
  from a(2,3) sibling_one_branch [of duplicate_bullets]
  have 2: "sibling_items duplicate_bullets = concat (map li_item (lis duplicate_bullets))"
    by blast
  from a(4,5) sibling_one_branch [of table_sibling]
  have 3: "sibling_items table_sibling = []" by blast
  from a 1 2 3 show ?thesis by blast
qed

subsection \<open>The extractors and \<open>scrape\<close>\<close>







lemma filter_loop_filter:
  "filter_loop c acc rs =
     acc @ filter (\<lambda>r. case date r of None \<Rightarrow> False | Some d \<Rightarrow> c \<le> d) rs"
  by (induction rs arbitrary: acc) (auto split: option.splits)

lemma filter_by_date_filter:
  "filter_by_date s =
     filter (\<lambda>r. case date r of None \<Rightarrow> False | Some d \<Rightarrow> cutoff_date s \<le> d) (releases s)"
  by (simp add: filter_by_date_def filter_loop_filter)

lemma filter_by_date_member:
  "r \<in> set (filter_by_date s) \<longleftrightarrow>
     r \<in> set (releases s) \<and> (\<exists>d. date r = Some d \<and> cutoff_date s \<le> d)"
  by (auto simp: filter_by_date_filter split: option.splits)

lemma matches_loop_result: "matches_loop s ms = Inr () \<or> matches_loop s ms = Inl AttributeError"
proof (induction ms)
  case Nil
  show ?case by simp
next
  case (Cons m ms)
  obtain r where r: "parse_date m = Inr r" using parse_date_total by blast
  with Cons show ?case by (cases r) auto
qed

lemma patterns_loop_result:
  "patterns_loop s ps t = Inr () \<or> patterns_loop s ps t = Inl AttributeError"
proof (induction ps)
  case Nil
  show ?case by simp
next
  case (Cons p ps)
  with matches_loop_result [of s "re_findall p t"] show ?case by auto
qed

lemma pass_b_result: "pass_b s ts = Inr s \<or> pass_b s ts = Inl AttributeError"
proof (induction ts)
  case Nil
  show ?case by simp
next
  case (Cons t ts)
  with patterns_loop_result [of s date_patterns "strip t"] show ?case by auto
qed

lemma find_date_total: "\<exists>r. find_date ns st = Inr r"
proof (induction ns st rule: find_date.induct)
  case (1 st)
  show ?case by simp
next
  case (2 n ns date_found ds)
  show ?case
  proof (cases "case n of None \<Rightarrow> None | Some t \<Rightarrow> first_date date_patterns t")
    case None
    with 2(1) show ?thesis by auto
  next
    case (Some m)
    obtain d where d: "parse_date m = Inr d" using parse_date_total by blast
    with Some 2(2) show ?thesis by auto
  qed
qed


lemma is_duplicate_member:
  "is_duplicate rs p \<longleftrightarrow> p \<in> set (map item_text (all_items rs))"
  by (auto simp: is_duplicate_def all_items_def list_ex_iff)

text \<open>
  The duplicate check of the pass over the role-marked divs: it keeps the raw payloads of
  the collection pairwise different.
\<close>

lemma pass_a_distinct_payloads:
  "distinct (map item_text (all_items (releases s))) \<Longrightarrow> pass_a s cs = Inr s' \<Longrightarrow>
   distinct (map item_text (all_items (releases s')))"
proof (induction cs arbitrary: s)
  case Nil
  then show ?case by simp
next
  case (Cons c cs)
  obtain df ds where f: "find_date (neighbours c) (None, None) = Inr (df, ds)"
    using find_date_total [of "neighbours c" "(None, None)"] by auto
  show ?case
  proof (cases df)
    case None
    with f Cons show ?thesis by simp
  next
    case (Some d)
    let ?new = "\<lparr>date = Some d, date_str = str_or_none ds, items = [make_item (div_el c)],
                        url = scraper_url s\<rparr>"
    let ?s = "s\<lparr>releases := releases s @ [?new]\<rparr>"
    show ?thesis
    proof (cases "d \<ge> cutoff_date s \<and> get_text (div_el c) \<noteq> []
        \<and> length (get_text (div_el c)) > 20 \<and> \<not> is_duplicate (releases s) (markup (div_el c))")
      case True
      then have "markup (div_el c) \<notin> set (map item_text (all_items (releases s)))"
        by (simp add: is_duplicate_member)
      with Cons.prems(1) have "distinct (map item_text (all_items (releases ?s)))"
        by (simp add: all_items_def make_item_def)
      moreover from True f Some Cons.prems(2) have "pass_a ?s cs = Inr s'" by simp
      ultimately show ?thesis by (rule Cons.IH)
    next
      case False
      with f Some Cons.prems(2) have "pass_a s cs = Inr s'" by auto
      with Cons.prems(1) show ?thesis by (rule Cons.IH)
    qed
  qed
qed






text \<open>
  C6 (the code departs from the claim). The pass over the text nodes rebinds the node to
  its stripped text, a plain string, and then reads \<open>text.parent\<close>: at the first date
  inside the retention window it raises AttributeError, so the pass never emits an item,
  and \<open>scrape\<close> catches the exception and returns an empty list. On a page with two
  role-marked divs of equal text and different markup next to "Released 2024-05-01", the
  pass over the divs emits both, then the text pass raises and both are lost; on a page
  with the same dated sentence in two paragraphs nothing is emitted at all.
\<close>

theorem text_pass_raises_attribute_error:
  "(pass_b s ts = Inr s \<or> pass_b s ts = Inl AttributeError)
   \<and> get_text feature_a = get_text feature_b
   \<and> markup feature_a \<noteq> markup feature_b
   \<and> (case pass_a example_scraper (release_divs marked_page) of
         Inr s' \<Rightarrow> map (\<lambda>r. map item_text (items r)) (releases s')
       | Inl e \<Rightarrow> []) = [[markup feature_a], [markup feature_b]]
   \<and> parse_unstructured_releases example_scraper marked_page = Inl AttributeError
   \<and> scrape example_scraper (Inr marked_page)
       = \<lparr>returned = [], called = [Structured, Unstructured]\<rparr>
   \<and> parse_unstructured_releases example_scraper dated_text_page = Inl AttributeError
   \<and> scrape example_scraper (Inr dated_text_page)
       = \<lparr>returned = [], called = [Structured, Unstructured]\<rparr>"
proof -
  have "get_text feature_a = get_text feature_b" "markup feature_a \<noteq> markup feature_b"
    "(case pass_a example_scraper (release_divs marked_page) of
         Inr s' \<Rightarrow> map (\<lambda>r. map item_text (items r)) (releases s')
       | Inl e \<Rightarrow> []) = [[markup feature_a], [markup feature_b]]"
    "parse_unstructured_releases example_scraper marked_page = Inl AttributeError"
    "scrape example_scraper (Inr marked_page)
       = \<lparr>returned = [], called = [Structured, Unstructured]\<rparr>"
    "parse_unstructured_releases example_scraper dated_text_page = Inl AttributeError"
    "scrape example_scraper (Inr dated_text_page)
       = \<lparr>returned = [], called = [Structured, Unstructured]\<rparr>"
    by code_simp+
  with pass_b_result [of s ts] show ?thesis by blast
qed

subsection \<open>Sorting and rendering\<close>

lemma mset_sort_releases: "mset (sort_releases rs) = mset rs"
  by (simp add: sort_releases_def)

lemma set_sort_releases: "set (sort_releases rs) = set rs"
  by (simp add: sort_releases_def)

lemma sort_releases_Nil: "sort_releases rs = [] \<longleftrightarrow> rs = []"
  by (metis mset_sort_releases mset_zero_iff)

lemma sort_releases_descending:
  "sorted_wrt (\<lambda>a b. sort_key_date a \<ge> sort_key_date b) (sort_releases rs)"
proof -
  have "sorted (map sort_key_date (sort_key sort_key_date (rev rs)))"
    by (rule sorted_sort_key)
  then have "sorted_wrt (\<lambda>a b. sort_key_date a \<le> sort_key_date b)
               (sort_key sort_key_date (rev rs))"
    by (simp add: sorted_map)
  then show ?thesis
    by (simp add: sort_releases_def sorted_wrt_rev)
qed

text \<open>Groups of the same date keep the order in which they were collected.\<close>

lemma sort_releases_stable:
  "filter (\<lambda>r. sort_key_date r = k) (sort_releases rs) = filter (\<lambda>r. sort_key_date r = k) rs"
  by (simp add: sort_releases_def sort_key_stable flip: rev_filter)

lemma dated_list:
  "\<forall>r \<in> set gs. date r \<noteq> None \<Longrightarrow> map date gs = map Some (map sort_key_date gs)"
  by (induction gs) (auto simp: sort_key_date_def)

lemma present_dates_dated: "map date gs = map Some ds \<Longrightarrow> present_dates gs = ds"
proof (induction gs arbitrary: ds)
  case Nil
  then show ?case by (simp add: present_dates_def)
next
  case (Cons g gs)
  then obtain d ds' where "ds = d # ds'" "date g = Some d" "map date gs = map Some ds'"
    by (cases ds) auto
  with Cons.IH [of ds'] show ?case by (simp add: present_dates_def)
qed

lemma html_range_dated:
  "map date gs = map Some ds \<Longrightarrow> \<exists>line. html_range s e gs = Inr line"
proof -
  assume a: "map date gs = map Some ds"
  show ?thesis
  proof (cases gs)
    case Nil
    then show ?thesis by (simp add: html_range_def)
  next
    case (Cons g gs')
    with a have "present_dates gs = ds" "ds \<noteq> []" by (auto simp: present_dates_dated)
    with Cons show ?thesis by (cases ds) (auto simp: html_range_def)
  qed
qed

text \<open>
  C5. For the filtered collection, every renderer lays the groups out in one order
  \<open>gs\<close>: a rearrangement of the collection in which every group has a date and the dates
  never increase from one group to the next (newest first). The text and markdown
  renderers print the groups in this order between header and statistics, the JSON
  renderer lists them in this order, and the HTML renderer, which does not raise on a
  filtered collection, prints them in this order in its body.
\<close>

theorem rendered_groups_newest_first:
  "\<exists>gs ds. mset gs = mset (filter_by_date s)
      \<and> map date gs = map Some ds
      \<and> sorted_wrt (\<lambda>a b. a \<ge> b) ds
      \<and> format_text s e (filter_by_date s) =
          (if gs = []
           then join nl (text_header s e @ [''No releases found in the specified time range.''])
           else join nl (text_header s e @ concat (map (text_release e) gs) @ text_stats gs))
      \<and> format_markdown s e (filter_by_date s) =
          (if gs = []
           then join nl (markdown_header s e
                           @ [''*No releases found in the specified time range.*''])
           else join nl (markdown_header s e @ concat (map (markdown_release e) gs)
                           @ markdown_stats gs))
      \<and> format_json s e (filter_by_date s) = dumps e (json_output s e gs)
      \<and> (\<exists>range_line. format_html s e (filter_by_date s) =
            Inr (join nl (html_head @ html_meta s e @ html_body s gs @ html_stats_head gs
                          @ [range_line] @ html_categories gs @ html_tail s)))"
proof -
  let ?rs = "filter_by_date s"
  let ?gs = "sort_releases ?rs"
  have "\<forall>r \<in> set ?gs. date r \<noteq> None"
    by (auto simp: set_sort_releases filter_by_date_member)
  then have "map date ?gs = map Some (map sort_key_date ?gs)"
    by (rule dated_list)
  then obtain ds where ds: "map date ?gs = map Some ds" "map sort_key_date ?gs = ds"
    by simp
  have "sorted_wrt (\<lambda>a b. a \<ge> b) (map sort_key_date ?gs)"
    using sort_releases_descending [of ?rs] by (simp add: sorted_wrt_map)
  with ds have sorted: "sorted_wrt (\<lambda>a b. a \<ge> b) ds" by simp
  have e: "?gs = [] \<longleftrightarrow> ?rs = []" by (rule sort_releases_Nil)
  have t: "format_text s e ?rs =
          (if ?gs = []
           then join nl (text_header s e @ [''No releases found in the specified time range.''])
           else join nl (text_header s e @ concat (map (text_release e) ?gs) @ text_stats ?gs))"
    by (simp add: format_text_def e Let_def)
  have m: "format_markdown s e ?rs =
          (if ?gs = []
           then join nl (markdown_header s e
                           @ [''*No releases found in the specified time range.*''])
           else join nl (markdown_header s e @ concat (map (markdown_release e) ?gs)
                           @ markdown_stats ?gs))"
    by (simp add: format_markdown_def e Let_def)
  have j: "format_json s e ?rs = dumps e (json_output s e ?gs)"
    by (simp add: format_json_def)
  obtain line where "html_range s e ?gs = Inr line"
    using html_range_dated [OF ds(1)] by blast
  then have "format_html s e ?rs =
            Inr (join nl (html_head @ html_meta s e @ html_body s ?gs @ html_stats_head ?gs
                          @ [line] @ html_categories ?gs @ html_tail s))"
    by (simp add: format_html_def Let_def)
  then have h: "\<exists>range_line. format_html s e ?rs =
            Inr (join nl (html_head @ html_meta s e @ html_body s ?gs @ html_stats_head ?gs
                          @ [range_line] @ html_categories ?gs @ html_tail s))"
    by blast
  from mset_sort_releases [of ?rs] ds(1) sorted t m j h show ?thesis by blast
qed

theorem rendered_groups_newest_first_witness:
  "filter_by_date collected_scraper =
     [release_dated (Some (example_now - 30 * microseconds_per_day)),
      release_dated (Some (example_now - 2 * microseconds_per_day))]
   \<and> sort_releases (filter_by_date collected_scraper) =
     [release_dated (Some (example_now - 2 * microseconds_per_day)),
      release_dated (Some (example_now - 30 * microseconds_per_day))]
   \<and> (\<exists>gs ds. mset gs = mset (filter_by_date collected_scraper)
        \<and> map date gs = map Some ds
        \<and> sorted_wrt (\<lambda>a b. a \<ge> b) ds
        \<and> format_json collected_scraper example_env (filter_by_date collected_scraper) =
            dumps example_env (json_output collected_scraper example_env gs)
        \<and> format_text collected_scraper example_env (filter_by_date collected_scraper) =
            join nl (text_header collected_scraper example_env
                     @ concat (map (text_release example_env) gs) @ text_stats gs))"
proof -
  have a: "filter_by_date collected_scraper =
     [release_dated (Some (example_now - 30 * microseconds_per_day)),
      release_dated (Some (example_now - 2 * microseconds_per_day))]"
    "sort_releases (filter_by_date collected_scraper) =
     [release_dated (Some (example_now - 2 * microseconds_per_day)),
      release_dated (Some (example_now - 30 * microseconds_per_day))]"
    by code_simp+
  from rendered_groups_newest_first [of collected_scraper example_env]
  obtain gs ds where g: "mset gs = mset (filter_by_date collected_scraper)"
    "map date gs = map Some ds" "sorted_wrt (\<lambda>a b. a \<ge> b) ds"
    "format_json collected_scraper example_env (filter_by_date collected_scraper) =
            dumps example_env (json_output collected_scraper example_env gs)"
    "format_text collected_scraper example_env (filter_by_date collected_scraper) =
          (if gs = []
           then join nl (text_header collected_scraper example_env
                           @ [''No releases found in the specified time range.''])
           else join nl (text_header collected_scraper example_env
                           @ concat (map (text_release example_env) gs) @ text_stats gs))"
    by blast
  from g(1) a(1) have "gs \<noteq> []" by auto
  with g a show ?thesis by auto
qed

subsection \<open>Failures\<close>






end
